theory Spec2Isabelle
  imports Main
begin

section \<open>Errors\<close>

text \<open>
  The Go code returns values of the interface \<open>error\<close>; \<open>nil\<close> is \<open>None\<close>.
  The constructors are the error values the two packages build or test for:
  \<^item> \<open>ErrNew m\<close>: \<open>errors.New(m)\<close> and \<open>errors.Errorf(...)\<close> with the message formatted;
  \<^item> \<open>ErrWrap cause m\<close>: \<open>errors.Wrap(cause, m)\<close> and \<open>errors.Wrapf(cause, ...)\<close>;
  \<^item> \<open>OSError op path errno\<close>: the \<open>*os.PathError\<close> / \<open>*os.LinkError\<close> of a failed
    system call;
  \<^item> \<open>EOF\<close>: \<open>io.EOF\<close>;
  \<^item> \<open>Opaque m\<close>: an error produced by a collaborator behind an interface (the source
    manager's backend, the index store, the model reader, a validator).
\<close>

datatype errno = ENOENT | EEXIST | ENOTEMPTY | EACCES | EPERM | ENOTDIR | EIO

datatype error =
    ErrNew string
  | ErrWrap error string
  | OSError string string errno
  | EOF
  | Opaque string

fun errnoString :: "errno \<Rightarrow> string" where
  "errnoString ENOENT = ''no such file or directory''"
| "errnoString EEXIST = ''file exists''"
| "errnoString ENOTEMPTY = ''directory not empty''"
| "errnoString EACCES = ''permission denied''"
| "errnoString EPERM = ''operation not permitted''"
| "errnoString ENOTDIR = ''not a directory''"
| "errnoString EIO = ''input/output error''"

text \<open>The method \<open>Error()\<close>: a wrapped error prints its message, a colon and its cause.\<close>

fun Error :: "error \<Rightarrow> string" where
  "Error (ErrNew m) = m"
| "Error (ErrWrap cause m) = m @ '': '' @ Error cause"
| "Error (OSError opn p n) = opn @ '' '' @ p @ '': '' @ errnoString n"
| "Error EOF = ''EOF''"
| "Error (Opaque m) = m"

text \<open>
  \<open>os.IsNotExist\<close>, \<open>os.IsExist\<close> and \<open>os.IsPermission\<close> look at the errno under a
  path or link error and nowhere else: they do not look through \<open>errors.Wrap\<close>, and
  they are false on \<open>nil\<close>.
\<close>

fun IsNotExist :: "error option \<Rightarrow> bool" where
  "IsNotExist (Some (OSError opn p n)) = (n = ENOENT)"
| "IsNotExist e = False"

fun IsExist :: "error option \<Rightarrow> bool" where
  "IsExist (Some (OSError opn p n)) = (n = EEXIST \<or> n = ENOTEMPTY)"
| "IsExist e = False"

fun IsPermission :: "error option \<Rightarrow> bool" where
  "IsPermission (Some (OSError opn p n)) = (n = EACCES \<or> n = EPERM)"
| "IsPermission e = False"

text \<open>
  \<open>reports e c\<close>: the error \<open>c\<close> is \<open>e\<close> itself or one of the causes \<open>e\<close> wraps, that
  is, \<open>c\<close> can be recovered from what the caller received.
\<close>

fun reports :: "error \<Rightarrow> error \<Rightarrow> bool" where
  "reports (ErrWrap cause m) c = (ErrWrap cause m = c \<or> reports cause c)"
| "reports e c = (e = c)"

section \<open>The metadata model\<close>

text \<open>
  Modelled from the spec: package \<open>pkg/template/model\<close> (the types \<open>Template\<close> and
  \<open>Generator\<close> and the method \<open>Template.Generator\<close>) is not among the sources. The
  fields are the ones the orchestrator reads and writes; \<open>Generators\<close> is the ordered
  collection of the spec, looked up by generator ID, \<open>None\<close> being the \<open>nil\<close> pointer.
\<close>

datatype source_type = SourceTypeURL | SourceTypeLink

datatype generator_type = GeneratorTypeFile | GeneratorTypeDirectory

record generator =
  GeneratorID :: string
  TType :: generator_type
  GeneratorDirectoryName :: string
  FileGenerationRelativePath :: string

record template =
  ID :: string
  DirectoryName :: string
  SourceType :: source_type
  Generators :: "generator list"

definition Generator :: "template \<Rightarrow> string \<Rightarrow> generator option" where
  "Generator t generatorID = find (\<lambda>g. GeneratorID g = generatorID) (Generators t)"

type_synonym Values = "(string \<times> string) list"

record GeneratorData =
  dataTemplate :: template
  dataGenerator :: generator
  dataValues :: Values

section \<open>The collaborators behind interfaces\<close>

text \<open>
  The orchestrator reaches the source manager, the index, the model reader and the
  validators through interfaces, so they are parameters here. The world has two parts:
  the filesystem \<open>'f\<close> (the templates directory and the generation target) and the
  index store \<open>'i\<close>. An operation that writes takes its part of the world and returns
  the new one together with its result; a query (\<open>Exists\<close>, \<open>FindTemplateByID\<close>,
  \<open>Read\<close>, \<open>TemplateLocation\<close>) returns a result only. A Go result \<open>(v, err)\<close> whose
  value is used only when \<open>err\<close> is \<open>nil\<close> is a sum, \<open>Inl\<close> the error.
\<close>

record ('f, 'i) world =
  fs :: 'f
  ix :: 'i

record 'f manager =
  mInstall :: "string \<Rightarrow> 'f \<Rightarrow> (error + string) \<times> 'f"
  mUpdate :: "string \<Rightarrow> 'f \<Rightarrow> error option \<times> 'f"
  mUninstall :: "string \<Rightarrow> 'f \<Rightarrow> error option \<times> 'f"
  mLink :: "string \<Rightarrow> string \<Rightarrow> 'f \<Rightarrow> (error + string) \<times> 'f"
  mUnlink :: "string \<Rightarrow> 'f \<Rightarrow> error option \<times> 'f"
  mTemplateLocation :: "string \<Rightarrow> string"

record 'i index =
  iExists :: "string \<Rightarrow> 'i \<Rightarrow> error + bool"
  iFindTemplateByID :: "string \<Rightarrow> 'i \<Rightarrow> error + template"
  iIndex :: "template \<Rightarrow> 'i \<Rightarrow> (error + string) \<times> 'i"
  iUpdate :: "template \<Rightarrow> 'i \<Rightarrow> error option \<times> 'i"
  iDelete :: "string \<Rightarrow> 'i \<Rightarrow> (error + string) \<times> 'i"
  iList :: "'i \<Rightarrow> error + template list"

text \<open>
  \<open>validator.Validate(model)\<close> returns \<open>(valid, validationErr, err)\<close>; the payload
  \<open>validationErr\<close> is rendered by \<open>validationTempl.Execute\<close>, which returns the text
  written to the buffer or an error.
\<close>

type_synonym validator = "template \<Rightarrow> bool \<times> string \<times> error option"

record ('f, 'i) Ironman =
  manager :: "'f manager"
  modelReader :: "string \<Rightarrow> 'f \<Rightarrow> error + template"
  index :: "'i index"
  home :: string
  validators :: "validator list"
  validationTempl :: "string \<Rightarrow> error + string"

definition indexName :: string where "indexName = ''templates.index''"
definition templatesDirectory :: string where "templatesDirectory = ''templates''"
definition generatorsPath :: string where "generatorsPath = ''generators''"

section \<open>The lifecycle orchestrator (package ironman)\<close>

text \<open>
  The validation loop of \<open>Install\<close>: the first validator that returns an error or
  rejects the model ends the loop with the error \<open>Install\<close> then returns.
\<close>

fun runValidators :: "(string \<Rightarrow> error + string) \<Rightarrow> validator list \<Rightarrow> template \<Rightarrow> error option" where
  "runValidators tmpl [] templateModel = None"
| "runValidators tmpl (v # vs) templateModel =
     (case v templateModel of
        (valid, validationErr, Some err) \<Rightarrow> Some (ErrWrap err ''failed to validate model'')
      | (valid, validationErr, None) \<Rightarrow>
          if \<not> valid then
            (case tmpl validationErr of
               Inl err \<Rightarrow> Some (ErrWrap err ''failed to create validation error message'')
             | Inr msg \<Rightarrow> Some (ErrNew msg))
          else runValidators tmpl vs templateModel)"

definition Install :: "('f, 'i) Ironman \<Rightarrow> string \<Rightarrow> ('f, 'i) world \<Rightarrow> error option \<times> ('f, 'i) world" where
  "Install i templateLocator w =
     (case mInstall (manager i) templateLocator (fs w) of
        (Inl err, f1) \<Rightarrow> (Some err, w\<lparr>fs := f1\<rparr>)
      | (Inr templateDirectory, f1) \<Rightarrow>
          (let templatePath = mTemplateLocation (manager i) templateDirectory in
           case modelReader i templatePath f1 of
             Inl err \<Rightarrow>
               (let (rollbackErr, f2) = mUninstall (manager i) templateDirectory f1
                in (Some (ErrWrap err ''failed to read template model''), w\<lparr>fs := f2\<rparr>))
           | Inr templateModel \<Rightarrow>
               (case runValidators (validationTempl i) (validators i) templateModel of
                  Some err \<Rightarrow> (Some err, w\<lparr>fs := f1\<rparr>)
                | None \<Rightarrow>
                    (case iIndex (index i) (templateModel\<lparr>SourceType := SourceTypeURL\<rparr>) (ix w) of
                       (Inl err, x1) \<Rightarrow>
                         (let (rollbackErr, f2) = mUninstall (manager i) templateDirectory f1
                          in (Some err, \<lparr>fs = f2, ix = x1\<rparr>))
                     | (Inr indexed, x1) \<Rightarrow> (None, \<lparr>fs = f1, ix = x1\<rparr>)))))"

definition Link :: "('f, 'i) Ironman \<Rightarrow> string \<Rightarrow> string \<Rightarrow> ('f, 'i) world \<Rightarrow> error option \<times> ('f, 'i) world" where
  "Link i templatePath templateID w =
     (case mLink (manager i) templatePath templateID (fs w) of
        (Inl err, f1) \<Rightarrow> (Some err, w\<lparr>fs := f1\<rparr>)
      | (Inr linkPath, f1) \<Rightarrow>
          (case modelReader i linkPath f1 of
             Inl err \<Rightarrow>
               (let (rollbackErr, f2) = mUnlink (manager i) templateID f1
                in (Some err, w\<lparr>fs := f2\<rparr>))
           | Inr templateModel \<Rightarrow>
               (case iIndex (index i)
                       (templateModel\<lparr>ID := templateID, SourceType := SourceTypeLink\<rparr>) (ix w) of
                  (Inl err, x1) \<Rightarrow>
                    (let (rollbackErr, f2) = mUnlink (manager i) templateID f1
                     in (Some err, \<lparr>fs = f2, ix = x1\<rparr>))
                | (Inr indexed, x1) \<Rightarrow> (None, \<lparr>fs = f1, ix = x1\<rparr>))))"

definition List :: "('f, 'i) Ironman \<Rightarrow> ('f, 'i) world \<Rightarrow> error + template list" where
  "List i w = (case iList (index i) (ix w) of Inl err \<Rightarrow> Inl err | Inr results \<Rightarrow> Inr results)"

definition Uninstall :: "('f, 'i) Ironman \<Rightarrow> string \<Rightarrow> ('f, 'i) world \<Rightarrow> error option \<times> ('f, 'i) world" where
  "Uninstall i templateID w =
     (case iExists (index i) templateID (ix w) of
        Inl err \<Rightarrow>
          (Some (ErrWrap err (''failed to validate if template exists '' @ templateID)), w)
      | Inr exists \<Rightarrow>
          if \<not> exists then (Some (ErrNew (''template '' @ templateID @ '' is not installed'')), w)
          else
            (case iFindTemplateByID (index i) templateID (ix w) of
               Inl err \<Rightarrow> (Some (ErrWrap err (''failed to get template model '' @ templateID)), w)
             | Inr model \<Rightarrow>
                 (case mUninstall (manager i) (DirectoryName model) (fs w) of
                    (Some err, f1) \<Rightarrow> (Some err, w\<lparr>fs := f1\<rparr>)
                  | (None, f1) \<Rightarrow>
                      (case iDelete (index i) templateID (ix w) of
                         (Inl err, x1) \<Rightarrow> (Some err, \<lparr>fs = f1, ix = x1\<rparr>)
                       | (Inr deleted, x1) \<Rightarrow> (None, \<lparr>fs = f1, ix = x1\<rparr>)))))"

definition Unlink :: "('f, 'i) Ironman \<Rightarrow> string \<Rightarrow> ('f, 'i) world \<Rightarrow> error option \<times> ('f, 'i) world" where
  "Unlink i templateID w =
     (case mUnlink (manager i) templateID (fs w) of
        (Some err, f1) \<Rightarrow> (Some err, w\<lparr>fs := f1\<rparr>)
      | (None, f1) \<Rightarrow>
          (case iDelete (index i) templateID (ix w) of
             (Inl err, x1) \<Rightarrow> (Some err, \<lparr>fs = f1, ix = x1\<rparr>)
           | (Inr deleted, x1) \<Rightarrow> (None, \<lparr>fs = f1, ix = x1\<rparr>)))"

definition Update :: "('f, 'i) Ironman \<Rightarrow> string \<Rightarrow> ('f, 'i) world \<Rightarrow> error option \<times> ('f, 'i) world" where
  "Update i templateID w =
     (case iExists (index i) templateID (ix w) of
        Inl err \<Rightarrow>
          (Some (ErrWrap err (''failed to validate if template exists '' @ templateID)), w)
      | Inr exists \<Rightarrow>
          if \<not> exists then
            (Some (ErrNew (''template '' @ [CHR 0x27] @ templateID @ [CHR 0x27] @ '' is not installed'')), w)
          else
            (case iFindTemplateByID (index i) templateID (ix w) of
               Inl err \<Rightarrow> (Some (ErrWrap err (''failed to get template model '' @ templateID)), w)
             | Inr model \<Rightarrow>
                 (case mUpdate (manager i) (DirectoryName model) (fs w) of
                    (Some err, f1) \<Rightarrow> (Some err, w\<lparr>fs := f1\<rparr>)
                  | (None, f1) \<Rightarrow> (None, w\<lparr>fs := f1\<rparr>))))"


section \<open>Generation: what the packages call outside the interfaces\<close>

text \<open>
  The functions of the Go standard library the two packages call (\<open>os\<close>, \<open>io/ioutil\<close>,
  \<open>path/filepath\<close>) and the generation engine of \<open>pkg/template\<close>
  (\<open>template.NewGenerator(generatorPath, absGenerationPath, data).Generate\<close>), which is
  not among the sources, are parameters as well. \<open>os.Stat\<close>, \<open>os.Open\<close> and
  \<open>Readdirnames\<close> read the filesystem and return a result only. \<open>os.Mkdir\<close>,
  \<open>os.Remove\<close> and \<open>os.Symlink\<close> are single system calls: they either fail and leave
  the filesystem as it was (\<open>Inl\<close>) or succeed (\<open>Inr\<close> the new filesystem).
  \<open>os.RemoveAll\<close> and the generation engine can fail half-way, so they return the
  filesystem they leave with their error.
\<close>

record 'f platform =
  osStat :: "string \<Rightarrow> 'f \<Rightarrow> error option"
  osMkdir :: "string \<Rightarrow> 'f \<Rightarrow> error + 'f"
  osOpen :: "string \<Rightarrow> 'f \<Rightarrow> error option"
  osReaddirnames :: "string \<Rightarrow> nat \<Rightarrow> 'f \<Rightarrow> string list \<times> error option"
  osRemoveAll :: "string \<Rightarrow> 'f \<Rightarrow> error option \<times> 'f"
  osRemove :: "string \<Rightarrow> 'f \<Rightarrow> error + 'f"
  osSymlink :: "string \<Rightarrow> string \<Rightarrow> 'f \<Rightarrow> error + 'f"
  ioutilReadDir :: "string \<Rightarrow> 'f \<Rightarrow> error + string list"
  filepathAbs :: "string \<Rightarrow> error + string"
  filepathDir :: "string \<Rightarrow> string"
  filepathBase :: "string \<Rightarrow> string"
  filepathJoin :: "string list \<Rightarrow> string"
  generatorGenerate :: "string \<Rightarrow> string \<Rightarrow> GeneratorData \<Rightarrow> 'f \<Rightarrow> error option \<times> 'f"

text \<open>
  \<open>isDirEmpty\<close>: open the directory and read one name; \<open>io.EOF\<close> means empty, anything
  else is returned with \<open>false\<close> (a name was read and the error is \<open>nil\<close>, or the read failed).
\<close>

definition isDirEmpty :: "'f platform \<Rightarrow> string \<Rightarrow> 'f \<Rightarrow> bool \<times> error option" where
  "isDirEmpty p name f =
     (case osOpen p name f of
        Some err \<Rightarrow> (False, Some err)
      | None \<Rightarrow>
          (case osReaddirnames p name 1 f of
             (names, err) \<Rightarrow> if err = Some EOF then (True, None) else (False, err)))"

text \<open>
  \<open>Generate\<close>, first part (the template lookup and the refresh of a linked template's
  metadata): the template model generation goes on with, or the error returned.
\<close>

definition generateTemplateModel ::
  "('f, 'i) Ironman \<Rightarrow> string \<Rightarrow> ('f, 'i) world \<Rightarrow> (error + template) \<times> ('f, 'i) world" where
  "generateTemplateModel i templateID w =
     (case iExists (index i) templateID (ix w) of
        Inl err \<Rightarrow>
          (Inl (ErrWrap err (''failed to validate if template exists '' @ templateID)), w)
      | Inr exists \<Rightarrow>
          if \<not> exists then
            (Inl (ErrNew (''template '' @ [CHR 0x27] @ templateID @ [CHR 0x27] @ '' is not installed'')), w)
          else
            (case iFindTemplateByID (index i) templateID (ix w) of
               Inl err \<Rightarrow> (Inl (ErrWrap err (''could not find template by ID '' @ templateID)), w)
             | Inr templateModel \<Rightarrow>
                 if SourceType templateModel = SourceTypeLink then
                   (let templatePath = mTemplateLocation (manager i) (DirectoryName templateModel) in
                    case modelReader i templatePath (fs w) of
                      Inl err \<Rightarrow>
                        (Inl (ErrWrap err (''failed to update metadata for template '' @ templateID)), w)
                    | Inr readModel \<Rightarrow>
                        (let templateModel = readModel\<lparr>ID := templateID, SourceType := SourceTypeLink\<rparr> in
                         case iUpdate (index i) templateModel (ix w) of
                           (Some err, x1) \<Rightarrow>
                             (Inl (ErrWrap err (''Failed to update metadata for template '' @ templateID)),
                              w\<lparr>ix := x1\<rparr>)
                         | (None, x1) \<Rightarrow> (Inr templateModel, w\<lparr>ix := x1\<rparr>)))
                 else (Inr templateModel, w)))"

text \<open>
  \<open>Generate\<close>, second part (the branch on the generator's type): the checks on the
  generation path, with the error returned if one fails.
\<close>

definition checkGenerationPath ::
  "'f platform \<Rightarrow> generator \<Rightarrow> string \<Rightarrow> string \<Rightarrow> bool \<Rightarrow> 'f \<Rightarrow> error option \<times> 'f" where
  "checkGenerationPath p genteratorModel generationPath absGenerationPath force f =
     (if TType genteratorModel = GeneratorTypeFile then
        (let baseDir = filepathDir p absGenerationPath in
         if IsNotExist (osStat p baseDir f) then
           (Some (ErrNew (''directory '' @ filepathDir p generationPath @ '' does not exists'')), f)
         else
           (let fileName = filepathBase p absGenerationPath;
                filePath = filepathJoin p
                  [baseDir, FileGenerationRelativePath genteratorModel, fileName]
            in if osStat p filePath f = None \<and> \<not> force then
                 (Some (ErrNew (''file already exists '' @ filePath @ '' '')), f)
               else (None, f)))
      else
        (case osMkdir p absGenerationPath f of
           Inr f1 \<Rightarrow> (None, f1)
         | Inl err \<Rightarrow>
             if IsPermission (Some err) then
               (Some (ErrWrap err (''failed to create generation path '' @ absGenerationPath)), f)
             else if IsExist (Some err) \<and> \<not> force then
               (case isDirEmpty p absGenerationPath f of
                  (isEmpty, Some err) \<Rightarrow>
                    (Some (ErrWrap err
                       (''failed to validate if generation path is empty '' @ Error err)), f)
                | (isEmpty, None) \<Rightarrow>
                    if \<not> isEmpty then
                      (Some (ErrNew (''Generation path is not empty '' @ absGenerationPath)), f)
                    else (None, f))
             else (None, f)))"

text \<open>
  \<open>Generate\<close>, last part: the generator's path under the home directory, the data
  handed to the engine, and the engine's run (the rendering walk) on the filesystem the
  checks left.
\<close>

definition renderGenerator ::
  "('f, 'i) Ironman \<Rightarrow> 'f platform \<Rightarrow> template \<Rightarrow> generator \<Rightarrow> string \<Rightarrow> Values \<Rightarrow>
     ('f, 'i) world \<Rightarrow> error option \<times> ('f, 'i) world" where
  "renderGenerator i p templateModel genteratorModel absGenerationPath vals w =
     (let generatorPath = filepathJoin p
            [home i, templatesDirectory, DirectoryName templateModel,
             generatorsPath, GeneratorDirectoryName genteratorModel];
          data = \<lparr>dataTemplate = templateModel,
                  dataGenerator = genteratorModel, dataValues = vals\<rparr>
      in case generatorGenerate p generatorPath absGenerationPath data (fs w) of
           (Some err, f2) \<Rightarrow> (Some err, w\<lparr>fs := f2\<rparr>)
         | (None, f2) \<Rightarrow> (None, w\<lparr>fs := f2\<rparr>))"

text \<open>
  \<open>Generate\<close>: the \<open>context\<close> argument carries cancellation only and is left out.
\<close>

definition Generate ::
  "('f, 'i) Ironman \<Rightarrow> 'f platform \<Rightarrow> string \<Rightarrow> string \<Rightarrow> string \<Rightarrow> Values \<Rightarrow> bool \<Rightarrow>
     ('f, 'i) world \<Rightarrow> error option \<times> ('f, 'i) world" where
  "Generate i p templateID generatorID generationPath vals force w =
     (case generateTemplateModel i templateID w of
        (Inl err, w1) \<Rightarrow> (Some err, w1)
      | (Inr templateModel, w1) \<Rightarrow>
          (case Generator templateModel generatorID of
             None \<Rightarrow> (Some (ErrNew (''generator '' @ generatorID @ '' does not exists'')), w1)
           | Some genteratorModel \<Rightarrow>
               (case filepathAbs p generationPath of
                  Inl err \<Rightarrow>
                    (Some (ErrWrap err
                       (''failed to get absolute path for generation path '' @ generationPath)), w1)
                | Inr absGenerationPath \<Rightarrow>
                    (case checkGenerationPath p genteratorModel generationPath
                            absGenerationPath force (fs w1) of
                       (Some err, f1) \<Rightarrow> (Some err, w1\<lparr>fs := f1\<rparr>)
                     | (None, f1) \<Rightarrow>
                         renderGenerator i p templateModel genteratorModel absGenerationPath
                           vals (w1\<lparr>fs := f1\<rparr>)))))"

section \<open>The base manager (package manager)\<close>

text \<open>
  A call either returns or panics; \<open>Panic m\<close> is \<open>panic(m)\<close>, which aborts the process
  unless recovered (nothing in the package recovers).
\<close>

datatype 'a outcome = Return 'a | Panic string

record BaseManager =
  path :: string
  templatesPath :: string

definition managerTemplatesDirectory :: string where
  "managerTemplatesDirectory = ''templates''"

definition NewBaseManager :: "'f platform \<Rightarrow> string \<Rightarrow> BaseManager" where
  "NewBaseManager p pth =
     \<lparr>path = pth, templatesPath = filepathJoin p [pth, managerTemplatesDirectory]\<rparr>"

definition validateTemplateID :: "string \<Rightarrow> error option" where
  "validateTemplateID templateID =
     (if templateID = [] then Some (ErrNew ''a templateID cannot be empty'') else None)"

definition TemplatePath :: "'f platform \<Rightarrow> BaseManager \<Rightarrow> string \<Rightarrow> string" where
  "TemplatePath p b templateID = filepathJoin p [path b, managerTemplatesDirectory, templateID]"

definition BaseManager_Uninstall ::
  "'f platform \<Rightarrow> BaseManager \<Rightarrow> string \<Rightarrow> 'f \<Rightarrow> error option \<times> 'f" where
  "BaseManager_Uninstall p b templateID f =
     (case validateTemplateID templateID of
        Some err \<Rightarrow> (Some err, f)
      | None \<Rightarrow>
          (let templatePath = TemplatePath p b templateID in
           case osRemoveAll p templatePath f of
             (Some err, f1) \<Rightarrow> (Some (ErrWrap err (''Failed to remove template '' @ templateID)), f1)
           | (None, f1) \<Rightarrow> (None, f1)))"

definition BaseManager_Find :: "BaseManager \<Rightarrow> string \<Rightarrow> error option outcome" where
  "BaseManager_Find b templateID = Panic ''not implemented''"

definition BaseManager_IsInstalled ::
  "'f platform \<Rightarrow> BaseManager \<Rightarrow> string \<Rightarrow> 'f \<Rightarrow> bool \<times> error option" where
  "BaseManager_IsInstalled p b templateID f =
     (case validateTemplateID templateID of
        Some err \<Rightarrow> (False, Some err)
      | None \<Rightarrow>
          (let templatePath = TemplatePath p b templateID in
           case osStat p templatePath f of
             Some err \<Rightarrow>
               if IsNotExist (Some err) then (False, None)
               else (False, Some (ErrWrap err
                       (''verifying template installation ID: '' @ templateID)))
           | None \<Rightarrow> (True, None)))"

text \<open>\<open>Installed\<close>: one metadata entry, of which only the ID is set, for each name listed.\<close>

definition BaseManager_Installed ::
  "'f platform \<Rightarrow> BaseManager \<Rightarrow> 'f \<Rightarrow> error + string list" where
  "BaseManager_Installed p b f =
     (case ioutilReadDir p (templatesPath b) f of
        Inl err \<Rightarrow> Inl (ErrWrap err ''Failed to list al the available templates'')
      | Inr files \<Rightarrow> Inr files)"

definition BaseManager_Link ::
  "'f platform \<Rightarrow> BaseManager \<Rightarrow> string \<Rightarrow> string \<Rightarrow> 'f \<Rightarrow> error option \<times> 'f" where
  "BaseManager_Link p b templatePath templateID f =
     (case validateTemplateID templateID of
        Some err \<Rightarrow> (Some err, f)
      | None \<Rightarrow>
          (let linkPath = TemplatePath p b templateID;
               link =
                 (case filepathAbs p templatePath of
                    Inl err \<Rightarrow>
                      (Some (ErrWrap err
                         (''Failed to create symlink to ironman manager for '' @ templatePath
                            @ '' with ID '' @ templateID)), f)
                  | Inr absTemplatePath \<Rightarrow>
                      (case osSymlink p absTemplatePath linkPath f of
                         Inl err \<Rightarrow>
                           (Some (ErrWrap err
                              (''Failed to create symlink to ironman manager for '' @ templatePath
                                 @ '' with ID '' @ templateID)), f)
                       | Inr f1 \<Rightarrow> (None, f1)))
           in case osStat p templatePath f of
                Some err \<Rightarrow>
                  if IsNotExist (Some err) then
                    (Some (ErrWrap err
                       (''Failed to create symlink to ironman manager path should ''
                          @ templatePath @ '' exists '')), f)
                  else link
              | None \<Rightarrow> link))"

definition BaseManager_Unlink ::
  "'f platform \<Rightarrow> BaseManager \<Rightarrow> string \<Rightarrow> 'f \<Rightarrow> error option \<times> 'f" where
  "BaseManager_Unlink p b templateID f =
     (case validateTemplateID templateID of
        Some err \<Rightarrow> (Some err, f)
      | None \<Rightarrow>
          (let templatePath = TemplatePath p b templateID;
               remove =
                 (case osRemove p templatePath f of
                    Inl err \<Rightarrow>
                      (Some (ErrWrap err (''Failed to remove symlink for template ID '' @ templateID)), f)
                  | Inr f1 \<Rightarrow> (None, f1))
           in case osStat p templatePath f of
                Some err \<Rightarrow>
                  if IsNotExist (Some err) then
                    (Some (ErrWrap err (''Failed to remove symlink for template ID '' @ Error err)), f)
                  else remove
              | None \<Rightarrow> remove))"

definition BaseManager_Install :: "BaseManager \<Rightarrow> string \<Rightarrow> error option outcome" where
  "BaseManager_Install b templateLocator = Panic ''not implemented''"

definition BaseManager_Update :: "BaseManager \<Rightarrow> string \<Rightarrow> error option outcome" where
  "BaseManager_Update b templateID = Panic ''not implemented''"


section \<open>In-memory collaborators for the concrete runs\<close>

text \<open>
  The concrete runs below need collaborators that compute. The filesystem is the list of
  the paths that exist (files, directories and links alike); the index is an association
  list from template ID to model. Paths are absolute and clean, so \<open>filepath.Abs\<close> is
  the identity on them, \<open>Dir\<close> and \<open>Base\<close> split at the last slash and \<open>Join\<close> puts
  slashes between the non-empty elements.
\<close>

definition memDir :: "string \<Rightarrow> string" where
  "memDir p =
     (let d = rev (drop 1 (dropWhile (\<lambda>c. c \<noteq> CHR ''/'') (rev p)))
      in if d = [] then ''/'' else d)"

definition memBase :: "string \<Rightarrow> string" where
  "memBase p = rev (takeWhile (\<lambda>c. c \<noteq> CHR ''/'') (rev p))"

definition memJoin :: "string list \<Rightarrow> string" where
  "memJoin elems =
     (case filter (\<lambda>e. e \<noteq> []) elems of
        [] \<Rightarrow> []
      | e # es \<Rightarrow> foldl (\<lambda>a b. a @ ''/'' @ b) e es)"

definition memUnder :: "string \<Rightarrow> string \<Rightarrow> bool" where
  "memUnder p q = (q = p \<or> take (Suc (length p)) q = p @ ''/'')"

text \<open>
  The engine of the in-memory platform writes one file, named after the generator, under
  the target path it is given.
\<close>

definition memPlatform :: "string list platform" where
  "memPlatform =
     \<lparr>osStat = (\<lambda>p f. if p \<in> set f then None else Some (OSError ''stat'' p ENOENT)),
      osMkdir = (\<lambda>p f.
        if p \<in> set f then Inl (OSError ''mkdir'' p EEXIST)
        else if memDir p \<notin> set f then Inl (OSError ''mkdir'' p ENOENT)
        else Inr (p # f)),
      osOpen = (\<lambda>p f. if p \<in> set f then None else Some (OSError ''open'' p ENOENT)),
      osReaddirnames = (\<lambda>p n f.
        let names = map memBase (filter (\<lambda>q. memDir q = p \<and> q \<noteq> p) f)
        in if names = [] then ([], Some EOF) else (take n names, None)),
      osRemoveAll = (\<lambda>p f. (None, filter (\<lambda>q. \<not> memUnder p q) f)),
      osRemove = (\<lambda>p f.
        if p \<in> set f then Inr (removeAll p f) else Inl (OSError ''remove'' p ENOENT)),
      osSymlink = (\<lambda>old new f.
        if new \<in> set f then Inl (OSError ''symlink'' new EEXIST) else Inr (new # f)),
      ioutilReadDir = (\<lambda>p f.
        if p \<in> set f then Inr (map memBase (filter (\<lambda>q. memDir q = p \<and> q \<noteq> p) f))
        else Inl (OSError ''open'' p ENOENT)),
      filepathAbs = Inr,
      filepathDir = memDir,
      filepathBase = memBase,
      filepathJoin = memJoin,
      generatorGenerate = (\<lambda>generatorPath target data f.
        (None, memJoin [target, GeneratorID (dataGenerator data)] # f))\<rparr>"

text \<open>
  A source manager rooted at \<open>root\<close>: \<open>Install\<close> names the directory after the locator
  and creates it, \<open>Uninstall\<close> removes it, \<open>Link\<close> and \<open>Unlink\<close> create and remove the
  entry named by the ID. With \<open>broken\<close> set, \<open>Uninstall\<close> and \<open>Unlink\<close> fail and remove
  nothing.
\<close>

definition memManager :: "string \<Rightarrow> bool \<Rightarrow> string list manager" where
  "memManager root broken =
     \<lparr>mInstall = (\<lambda>locator f. (Inr locator, memJoin [root, locator] # f)),
      mUpdate = (\<lambda>d f.
        if memJoin [root, d] \<in> set f then (None, f) else (Some (Opaque ''pull failed''), f)),
      mUninstall = (\<lambda>d f.
        if broken then (Some (Opaque ''remove failed''), f)
        else (None, filter (\<lambda>q. \<not> memUnder (memJoin [root, d]) q) f)),
      mLink = (\<lambda>templatePath templateID f.
        if templatePath \<notin> set f then (Inl (OSError ''stat'' templatePath ENOENT), f)
        else (Inr (memJoin [root, templateID]), memJoin [root, templateID] # f)),
      mUnlink = (\<lambda>templateID f.
        if broken then (Some (Opaque ''unlink failed''), f)
        else (None, removeAll (memJoin [root, templateID]) f)),
      mTemplateLocation = (\<lambda>d. memJoin [root, d])\<rparr>"

text \<open>
  Modelled from the spec: the index store (\<open>pkg/template/index/storm\<close>) is not among the
  sources. \<open>Exists\<close> never fails, \<open>FindTemplateByID\<close> and \<open>Update\<close> fail on an absent
  ID, \<open>Index\<close> fails on a present one, \<open>Delete\<close> removes the entry.
\<close>

definition memIndex :: "(string \<times> template) list index" where
  "memIndex =
     \<lparr>iExists = (\<lambda>templateID x. Inr (map_of x templateID \<noteq> None)),
      iFindTemplateByID = (\<lambda>templateID x.
        case map_of x templateID of
          None \<Rightarrow> Inl (Opaque ''not found'')
        | Some t \<Rightarrow> Inr t),
      iIndex = (\<lambda>t x.
        if map_of x (ID t) \<noteq> None then (Inl (Opaque ''already exists''), x)
        else (Inr (ID t), (ID t, t) # x)),
      iUpdate = (\<lambda>t x.
        if map_of x (ID t) = None then (Some (Opaque ''not found''), x)
        else (None, (ID t, t) # filter (\<lambda>e. fst e \<noteq> ID t) x)),
      iDelete = (\<lambda>templateID x. (Inr templateID, filter (\<lambda>e. fst e \<noteq> templateID) x)),
      iList = (\<lambda>x. Inr (map snd x))\<rparr>"

text \<open>
  A model reader that finds the model of a template in a table, by the template's path,
  when that path exists.
\<close>

definition memReader :: "(string \<times> template) list \<Rightarrow> string \<Rightarrow> string list \<Rightarrow> error + template" where
  "memReader table templatePath f =
     (if templatePath \<notin> set f then Inl (OSError ''open'' templatePath ENOENT)
      else case map_of table templatePath of
             None \<Rightarrow> Inl (Opaque ''no metadata file'')
           | Some t \<Rightarrow> Inr t)"

text \<open>
  The orchestrator over these collaborators. The validation template text of the package
  is empty, so executing it writes nothing whatever the payload.
\<close>

definition memIronman ::
  "bool \<Rightarrow> (string \<times> template) list \<Rightarrow> validator list \<Rightarrow>
     (string list, (string \<times> template) list) Ironman" where
  "memIronman broken table vs =
     \<lparr>manager = memManager ''/home/templates'' broken,
      modelReader = memReader table,
      index = memIndex,
      home = ''/home'',
      validators = vs,
      validationTempl = (\<lambda>payload. Inr [])\<rparr>"

definition fileGen :: generator where
  "fileGen = \<lparr>GeneratorID = ''controller'', TType = GeneratorTypeFile,
      GeneratorDirectoryName = ''controller'', FileGenerationRelativePath = ''src''\<rparr>"

definition dirGen :: generator where
  "dirGen = \<lparr>GeneratorID = ''app'', TType = GeneratorTypeDirectory,
      GeneratorDirectoryName = ''app'', FileGenerationRelativePath = []\<rparr>"

definition demoTemplate :: template where
  "demoTemplate = \<lparr>ID = ''demo'', DirectoryName = ''demo'', SourceType = SourceTypeURL,
      Generators = [fileGen, dirGen]\<rparr>"

text \<open>
  The metadata files under both template paths declare the ID \<open>demo\<close> and the source
  type URL.
\<close>

definition demoTable :: "(string \<times> template) list" where
  "demoTable = [(''/home/templates/demo'', demoTemplate), (''/home/templates/mine'', demoTemplate)]"

definition rejecting :: validator where
  "rejecting t = (False, ''name is required'', None)"

definition accepting :: validator where
  "accepting t = (True, [], None)"

definition emptyWorld :: "(string list, (string \<times> template) list) world" where
  "emptyWorld = \<lparr>fs = [''/'', ''/home'', ''/home/templates'', ''/work''], ix = []\<rparr>"


text \<open>
  A world with \<open>demo\<close> installed, a file \<open>/work/src/main.go\<close>, a directory \<open>/work/full\<close>
  holding one file and an empty directory \<open>/work/blank\<close>.
\<close>

definition installedWorld :: "(string list, (string \<times> template) list) world" where
  "installedWorld =
     \<lparr>fs = [''/home/templates/demo'', ''/'', ''/home'', ''/home/templates'', ''/work'',
            ''/work/src'', ''/work/src/main.go'', ''/work/full'', ''/work/full/README'',
            ''/work/blank''],
      ix = [(''demo'', demoTemplate)]\<rparr>"

text \<open>
  A world with the template at \<open>/src/mine\<close> linked under the ID \<open>mine\<close>; the index entry
  was stored before the template got its generators.
\<close>

definition linkedTemplate :: template where
  "linkedTemplate = \<lparr>ID = ''mine'', DirectoryName = ''mine'', SourceType = SourceTypeLink,
      Generators = []\<rparr>"

definition linkedWorld :: "(string list, (string \<times> template) list) world" where
  "linkedWorld =
     \<lparr>fs = [''/home/templates/mine'', ''/src/mine'', ''/'', ''/home'', ''/home/templates'',
            ''/work''],
      ix = [(''mine'', linkedTemplate)]\<rparr>"


text \<open>
  The names directly under a directory of the in-memory filesystem.
\<close>

definition memChildren :: "string \<Rightarrow> string list \<Rightarrow> string list" where
  "memChildren p f = map memBase (filter (\<lambda>q. memDir q = p \<and> q \<noteq> p) f)"

text \<open>
  The in-memory platform with permissions and file kinds added where the runs need
  them: the directories \<open>/work/locked\<close> and \<open>/work/sealed\<close> cannot be opened by the
  caller (\<open>os.Open\<close> fails with \<open>EACCES\<close>), and \<open>/work/src/main.go\<close> is a regular
  file, which opens but from which no names can be read (\<open>ENOTDIR\<close>).
\<close>

definition guardedPlatform :: "string list platform" where
  "guardedPlatform =
     memPlatform
       \<lparr>osOpen := (\<lambda>p f.
          if p = ''/work/locked'' \<or> p = ''/work/sealed'' then Some (OSError ''open'' p EACCES)
          else osOpen memPlatform p f),
        osReaddirnames := (\<lambda>p n f.
          if p = ''/work/src/main.go'' then ([], Some (OSError ''readdirent'' p ENOTDIR))
          else osReaddirnames memPlatform p n f)\<rparr>"

text \<open>
  The world with \<open>demo\<close> installed and, besides, the empty directory \<open>/work/locked\<close>
  and the directory \<open>/work/sealed\<close> holding the file \<open>notes\<close>.
\<close>

definition guardedWorld :: "(string list, (string \<times> template) list) world" where
  "guardedWorld =
     \<lparr>fs = [''/work/locked'', ''/work/sealed'', ''/work/sealed/notes'',
            ''/home/templates/demo'', ''/'', ''/home'', ''/home/templates'', ''/work'',
            ''/work/src'', ''/work/src/main.go'', ''/work/full'', ''/work/full/README'',
            ''/work/blank''],
      ix = [(''demo'', demoTemplate)]\<rparr>"

section \<open>Facts shared by the proofs\<close>

lemmas mem_defs = memIronman_def memManager_def memReader_def memIndex_def memPlatform_def
  memJoin_def memDir_def memBase_def memUnder_def demoTable_def demoTemplate_def
  fileGen_def dirGen_def rejecting_def accepting_def emptyWorld_def installedWorld_def
  linkedWorld_def linkedTemplate_def memChildren_def guardedPlatform_def guardedWorld_def

lemma generateTemplateModel_fs: "fs (snd (generateTemplateModel i templateID w)) = fs w"
  by (simp add: generateTemplateModel_def Let_def split: sum.splits prod.splits option.splits)

lemma renderGenerator_ix: "ix (snd (renderGenerator i p t g a vals w)) = ix w"
  by (simp add: renderGenerator_def Let_def split: prod.splits option.splits)

lemma Generate_ix:
  "ix (snd (Generate i p templateID generatorID generationPath vals force w))
     = ix (snd (generateTemplateModel i templateID w))"
  by (simp add: Generate_def renderGenerator_ix split: sum.splits prod.splits option.splits)

lemma IsExist_not_IsPermission: "IsExist e \<Longrightarrow> \<not> IsPermission e"
  by (cases e rule: IsExist.cases) auto

text \<open>
  The two rollback sites of \<open>Install\<close>: after a failed model read and after a failed
  index insert the filesystem is the one the manager's \<open>Uninstall\<close> leaves. After a
  failed validation it is the one the manager's \<open>Install\<close> left: no \<open>Uninstall\<close> runs.
\<close>

lemma Install_read_failure_rolls_back:
  assumes "mInstall (manager i) templateLocator (fs w) = (Inr d, f1)"
      and "modelReader i (mTemplateLocation (manager i) d) f1 = Inl e"
  shows "fs (snd (Install i templateLocator w)) = snd (mUninstall (manager i) d f1)"
  using assms by (simp add: Install_def split: prod.splits)

lemma Install_index_failure_rolls_back:
  assumes "mInstall (manager i) templateLocator (fs w) = (Inr d, f1)"
      and "modelReader i (mTemplateLocation (manager i) d) f1 = Inr t"
      and "runValidators (validationTempl i) (validators i) t = None"
      and "fst (iIndex (index i) (t\<lparr>SourceType := SourceTypeURL\<rparr>) (ix w)) = Inl e"
  shows "fs (snd (Install i templateLocator w)) = snd (mUninstall (manager i) d f1)"
  using assms by (auto simp: Install_def split: prod.splits sum.splits)

lemma Install_validation_failure_no_rollback:
  assumes "mInstall (manager i) templateLocator (fs w) = (Inr d, f1)"
      and "modelReader i (mTemplateLocation (manager i) d) f1 = Inr t"
      and "runValidators (validationTempl i) (validators i) t = Some e"
  shows "Install i templateLocator w = (Some e, w\<lparr>fs := f1\<rparr>)"
  using assms by (simp add: Install_def)

section \<open>Install: rollback after materialization\<close>

text \<open>
  Claim C1: every failure of \<open>Install\<close> after the source manager has materialized the
  template directory (model read, validation, index insert) is followed by a compensating
  \<open>Uninstall\<close>, so that after a failed \<open>Install\<close> the template is neither in the index nor
  on disk.

  The run below is the validation case. The manager installs \<open>demo\<close>, the model is read,
  the one registered validator rejects it: \<open>Install\<close> returns the error rendered from the
  (empty) validation template, the template is not in the index, and its directory is
  still on disk (\<open>os.Stat\<close> of it succeeds).
\<close>

theorem Install_rejected_template_stays_on_disk:
  "fst (Install (memIronman False demoTable [rejecting]) ''demo'' emptyWorld) = Some (ErrNew [])
   \<and> iExists memIndex ''demo''
        (ix (snd (Install (memIronman False demoTable [rejecting]) ''demo'' emptyWorld))) = Inr False
   \<and> osStat memPlatform ''/home/templates/demo''
        (fs (snd (Install (memIronman False demoTable [rejecting]) ''demo'' emptyWorld))) = None"
  by (simp add: Install_def mem_defs)

section \<open>Errors of the compensating actions\<close>

text \<open>
  Claim C2, as stated: when a compensating action fails (the rollback \<open>Uninstall\<close> of
  \<open>Install\<close>, the rollback \<open>Unlink\<close> of \<open>Link\<close>), its error is reported as a secondary
  error appended to the primary cause, never swallowed.

  In the runs below the model read fails and so does the rollback (the manager removes
  nothing and returns \<open>remove failed\<close>, resp. \<open>unlink failed\<close>). The error returned
  is the one returned when the rollback succeeds, and the rollback's error is nowhere in it.
\<close>

theorem rollback_error_not_reported:
  "mUninstall (manager (memIronman True [] [])) ''demo'' (''/home/templates/demo'' # fs emptyWorld)
     = (Some (Opaque ''remove failed''), ''/home/templates/demo'' # fs emptyWorld)
   \<and> Install (memIronman True [] []) ''demo'' emptyWorld
     = (Some (ErrWrap (Opaque ''no metadata file'') ''failed to read template model''),
        emptyWorld\<lparr>fs := ''/home/templates/demo'' # fs emptyWorld\<rparr>)
   \<and> \<not> reports (ErrWrap (Opaque ''no metadata file'') ''failed to read template model'')
          (Opaque ''remove failed'')
   \<and> fst (Install (memIronman True [] []) ''demo'' emptyWorld)
     = fst (Install (memIronman False [] []) ''demo'' emptyWorld)
   \<and> mUnlink (manager (memIronman True [] [])) ''mine'' (''/home/templates/mine'' # fs emptyWorld)
     = (Some (Opaque ''unlink failed''), ''/home/templates/mine'' # fs emptyWorld)
   \<and> Link (memIronman True [] []) ''/work'' ''mine'' emptyWorld
     = (Some (Opaque ''no metadata file''),
        emptyWorld\<lparr>fs := ''/home/templates/mine'' # fs emptyWorld\<rparr>)
   \<and> \<not> reports (Opaque ''no metadata file'') (Opaque ''unlink failed'')"
  by (simp add: Install_def Link_def mem_defs)

text \<open>
  Claim C2, amended: the error of a failed compensating action is discarded. Whatever the
  rollback returns, \<open>Install\<close> returns the model reader's error wrapped with
  \<open>failed to read template model\<close>, or the index's error as it is, and \<open>Link\<close> returns
  the model reader's or the index's error as it is: the primary cause is never replaced.
\<close>

theorem rollback_error_discarded:
  "(mInstall (manager i) templateLocator (fs w) = (Inr d, f1) \<and>
    modelReader i (mTemplateLocation (manager i) d) f1 = Inl e
      \<longrightarrow> fst (Install i templateLocator w) = Some (ErrWrap e ''failed to read template model''))
   \<and> (mInstall (manager i) templateLocator (fs w) = (Inr d, f1) \<and>
      modelReader i (mTemplateLocation (manager i) d) f1 = Inr t \<and>
      runValidators (validationTempl i) (validators i) t = None \<and>
      fst (iIndex (index i) (t\<lparr>SourceType := SourceTypeURL\<rparr>) (ix w)) = Inl e
      \<longrightarrow> fst (Install i templateLocator w) = Some e)
   \<and> (mLink (manager i) templatePath templateID (fs w) = (Inr linkPath, f1) \<and>
      modelReader i linkPath f1 = Inl e
      \<longrightarrow> fst (Link i templatePath templateID w) = Some e)
   \<and> (mLink (manager i) templatePath templateID (fs w) = (Inr linkPath, f1) \<and>
      modelReader i linkPath f1 = Inr t \<and>
      fst (iIndex (index i) (t\<lparr>ID := templateID, SourceType := SourceTypeLink\<rparr>) (ix w)) = Inl e
      \<longrightarrow> fst (Link i templatePath templateID w) = Some e)"
  by (auto simp: Install_def Link_def split: prod.splits sum.splits option.splits)

text \<open>
  The amended claim at runs where the rollback fails: the model read fails after
  \<open>Install\<close> and after \<open>Link\<close>, and the index insert fails after both.
\<close>

theorem rollback_error_discarded_witness:
  "mInstall (manager (memIronman True [] [])) ''demo'' (fs emptyWorld)
     = (Inr ''demo'', ''/home/templates/demo'' # fs emptyWorld)
   \<and> modelReader (memIronman True [] [])
       (mTemplateLocation (manager (memIronman True [] [])) ''demo'')
       (''/home/templates/demo'' # fs emptyWorld) = Inl (Opaque ''no metadata file'')
   \<and> fst (mUninstall (manager (memIronman True [] [])) ''demo''
        (''/home/templates/demo'' # fs emptyWorld)) = Some (Opaque ''remove failed'')
   \<and> fst (Install (memIronman True [] []) ''demo'' emptyWorld)
     = Some (ErrWrap (Opaque ''no metadata file'') ''failed to read template model'')
   \<and> runValidators (validationTempl (memIronman True demoTable [accepting]))
        (validators (memIronman True demoTable [accepting])) demoTemplate = None
   \<and> fst (iIndex (index (memIronman True demoTable [accepting]))
        (demoTemplate\<lparr>SourceType := SourceTypeURL\<rparr>) (ix installedWorld))
     = Inl (Opaque ''already exists'')
   \<and> fst (Install (memIronman True demoTable [accepting]) ''demo'' installedWorld)
     = Some (Opaque ''already exists'')
   \<and> mLink (manager (memIronman True [] [])) ''/work'' ''mine'' (fs emptyWorld)
     = (Inr ''/home/templates/mine'', ''/home/templates/mine'' # fs emptyWorld)
   \<and> fst (mUnlink (manager (memIronman True [] [])) ''mine''
        (''/home/templates/mine'' # fs emptyWorld)) = Some (Opaque ''unlink failed'')
   \<and> fst (Link (memIronman True [] []) ''/work'' ''mine'' emptyWorld)
     = Some (Opaque ''no metadata file'')
   \<and> fst (Link (memIronman True demoTable []) ''/work'' ''demo'' installedWorld)
     = Some (Opaque ''already exists'')"
proof -
  let ?i = "memIronman True [] []"
  let ?j = "memIronman True demoTable [accepting]"
  let ?k = "memIronman True demoTable []"
  let ?f1 = "''/home/templates/demo'' # fs emptyWorld"
  let ?f2 = "''/home/templates/demo'' # fs installedWorld"
  let ?f3 = "''/home/templates/mine'' # fs emptyWorld"
  have h1: "mInstall (manager ?i) ''demo'' (fs emptyWorld) = (Inr ''demo'', ?f1)"
    by (simp add: mem_defs)
  have h2: "modelReader ?i (mTemplateLocation (manager ?i) ''demo'') ?f1
              = Inl (Opaque ''no metadata file'')"
    by (simp add: mem_defs)
  have h3: "fst (mUninstall (manager ?i) ''demo'' ?f1) = Some (Opaque ''remove failed'')"
    by (simp add: mem_defs)
  have c1: "fst (Install ?i ''demo'' emptyWorld)
             = Some (ErrWrap (Opaque ''no metadata file'') ''failed to read template model'')"
    using rollback_error_discarded [where i = ?i and templateLocator = "''demo''"
        and w = emptyWorld and d = "''demo''" and ?f1.0 = ?f1 and e = "Opaque ''no metadata file''"]
      h1 h2 by blast
  have g1: "mInstall (manager ?j) ''demo'' (fs installedWorld) = (Inr ''demo'', ?f2)"
    by (simp add: mem_defs)
  have g2: "modelReader ?j (mTemplateLocation (manager ?j) ''demo'') ?f2 = Inr demoTemplate"
    by (simp add: mem_defs)
  have g3: "runValidators (validationTempl ?j) (validators ?j) demoTemplate = None"
    by (simp add: mem_defs)
  have g4: "fst (iIndex (index ?j) (demoTemplate\<lparr>SourceType := SourceTypeURL\<rparr>)
              (ix installedWorld)) = Inl (Opaque ''already exists'')"
    by (simp add: mem_defs)
  have c2: "fst (Install ?j ''demo'' installedWorld) = Some (Opaque ''already exists'')"
    using rollback_error_discarded [where i = ?j and templateLocator = "''demo''"
        and w = installedWorld and d = "''demo''" and ?f1.0 = ?f2 and t = demoTemplate
        and e = "Opaque ''already exists''"]
      g1 g2 g3 g4 by blast
  have l1: "mLink (manager ?i) ''/work'' ''mine'' (fs emptyWorld)
              = (Inr ''/home/templates/mine'', ?f3)"
    by (simp add: mem_defs)
  have l2: "modelReader ?i ''/home/templates/mine'' ?f3 = Inl (Opaque ''no metadata file'')"
    by (simp add: mem_defs)
  have l3: "fst (mUnlink (manager ?i) ''mine'' ?f3) = Some (Opaque ''unlink failed'')"
    by (simp add: mem_defs)
  have c3: "fst (Link ?i ''/work'' ''mine'' emptyWorld) = Some (Opaque ''no metadata file'')"
    using rollback_error_discarded [where i = ?i and templatePath = "''/work''"
        and templateID = "''mine''" and w = emptyWorld and linkPath = "''/home/templates/mine''"
        and ?f1.0 = ?f3 and e = "Opaque ''no metadata file''"]
      l1 l2 by blast
  have k1: "mLink (manager ?k) ''/work'' ''demo'' (fs installedWorld)
              = (Inr ''/home/templates/demo'', ?f2)"
    by (simp add: mem_defs)
  have k2: "modelReader ?k ''/home/templates/demo'' ?f2 = Inr demoTemplate"
    by (simp add: mem_defs)
  have k3: "fst (iIndex (index ?k)
              (demoTemplate\<lparr>ID := ''demo'', SourceType := SourceTypeLink\<rparr>)
              (ix installedWorld)) = Inl (Opaque ''already exists'')"
    by (simp add: mem_defs)
  have c4: "fst (Link ?k ''/work'' ''demo'' installedWorld) = Some (Opaque ''already exists'')"
    using rollback_error_discarded [where i = ?k and templatePath = "''/work''"
        and templateID = "''demo''" and w = installedWorld and linkPath = "''/home/templates/demo''"
        and ?f1.0 = ?f2 and t = demoTemplate and e = "Opaque ''already exists''"]
      k1 k2 k3 by blast
  show ?thesis using h1 h2 h3 c1 g3 g4 c2 l1 l3 c3 c4 by blast
qed

section \<open>Uninstall\<close>

text \<open>
  Claim C3: \<open>Uninstall\<close> of an ID absent from the index returns a not-found error
  (\<open>template ... is not installed\<close>) and leaves the world as it is; on a present ID it
  removes the directory named by the stored \<open>DirectoryName\<close> through the source manager
  before it deletes the index entry: when the removal fails the manager's error is
  returned and the index is untouched, and only when it succeeds is the entry deleted.
\<close>

theorem Uninstall_removes_before_delete:
  "(iExists (index i) templateID (ix w) = Inr False
      \<longrightarrow> Uninstall i templateID w
            = (Some (ErrNew (''template '' @ templateID @ '' is not installed'')), w))
   \<and> (iExists (index i) templateID (ix w) = Inr True \<and>
      iFindTemplateByID (index i) templateID (ix w) = Inr t \<and>
      mUninstall (manager i) (DirectoryName t) (fs w) = (Some e, f1)
      \<longrightarrow> Uninstall i templateID w = (Some e, \<lparr>fs = f1, ix = ix w\<rparr>))
   \<and> (iExists (index i) templateID (ix w) = Inr True \<and>
      iFindTemplateByID (index i) templateID (ix w) = Inr t \<and>
      mUninstall (manager i) (DirectoryName t) (fs w) = (None, f1)
      \<longrightarrow> snd (Uninstall i templateID w)
            = \<lparr>fs = f1, ix = snd (iDelete (index i) templateID (ix w))\<rparr>
          \<and> fst (Uninstall i templateID w)
            = (case fst (iDelete (index i) templateID (ix w)) of
                 Inl err \<Rightarrow> Some err | Inr deleted \<Rightarrow> None))"
  by (auto simp: Uninstall_def split: prod.splits sum.splits option.splits)

text \<open>
  Three runs on the world with \<open>demo\<close> installed: an ID that is not indexed, \<open>demo\<close>
  with a manager that cannot remove, and \<open>demo\<close> with a manager that can.
\<close>

theorem Uninstall_removes_before_delete_witness:
  "iExists (index (memIronman False demoTable [])) ''ghost'' (ix installedWorld) = Inr False
   \<and> Uninstall (memIronman False demoTable []) ''ghost'' installedWorld
     = (Some (ErrNew ''template ghost is not installed''), installedWorld)
   \<and> iExists (index (memIronman True demoTable [])) ''demo'' (ix installedWorld) = Inr True
   \<and> mUninstall (manager (memIronman True demoTable [])) ''demo'' (fs installedWorld)
     = (Some (Opaque ''remove failed''), fs installedWorld)
   \<and> Uninstall (memIronman True demoTable []) ''demo'' installedWorld
     = (Some (Opaque ''remove failed''), installedWorld)
   \<and> Uninstall (memIronman False demoTable []) ''demo'' installedWorld
     = (None, \<lparr>fs = [''/'', ''/home'', ''/home/templates'', ''/work'', ''/work/src'',
                     ''/work/src/main.go'', ''/work/full'', ''/work/full/README'',
                     ''/work/blank''], ix = []\<rparr>)"
proof -
  let ?ok = "memIronman False demoTable []"
  let ?bad = "memIronman True demoTable []"
  let ?rest = "[''/'', ''/home'', ''/home/templates'', ''/work'', ''/work/src'',
                ''/work/src/main.go'', ''/work/full'', ''/work/full/README'', ''/work/blank'']"
  have a1: "iExists (index ?ok) ''ghost'' (ix installedWorld) = Inr False"
    by (simp add: mem_defs)
  have c1: "Uninstall ?ok ''ghost'' installedWorld
              = (Some (ErrNew ''template ghost is not installed''), installedWorld)"
    using Uninstall_removes_before_delete [where i = ?ok and templateID = "''ghost''"
        and w = installedWorld] a1 by simp
  have b1: "iExists (index ?bad) ''demo'' (ix installedWorld) = Inr True"
    by (simp add: mem_defs)
  have b2: "iFindTemplateByID (index ?bad) ''demo'' (ix installedWorld) = Inr demoTemplate"
    by (simp add: mem_defs)
  have b3: "mUninstall (manager ?bad) (DirectoryName demoTemplate) (fs installedWorld)
              = (Some (Opaque ''remove failed''), fs installedWorld)"
    by (simp add: mem_defs)
  have w: "\<lparr>fs = fs installedWorld, ix = ix installedWorld\<rparr> = installedWorld"
    by simp
  have c2: "Uninstall ?bad ''demo'' installedWorld
              = (Some (Opaque ''remove failed''), installedWorld)"
    using Uninstall_removes_before_delete [where i = ?bad and templateID = "''demo''"
        and w = installedWorld and t = demoTemplate and e = "Opaque ''remove failed''"
        and ?f1.0 = "fs installedWorld"] b1 b2 b3 w by simp
  have d1: "iExists (index ?ok) ''demo'' (ix installedWorld) = Inr True"
    by (simp add: mem_defs)
  have d2: "iFindTemplateByID (index ?ok) ''demo'' (ix installedWorld) = Inr demoTemplate"
    by (simp add: mem_defs)
  have d3: "mUninstall (manager ?ok) (DirectoryName demoTemplate) (fs installedWorld)
              = (None, ?rest)"
    by (simp add: mem_defs)
  have d4: "iDelete (index ?ok) ''demo'' (ix installedWorld) = (Inr ''demo'', [])"
    by (simp add: mem_defs)
  have c3: "Uninstall ?ok ''demo'' installedWorld = (None, \<lparr>fs = ?rest, ix = []\<rparr>)"
    using Uninstall_removes_before_delete [where i = ?ok and templateID = "''demo''"
        and w = installedWorld and t = demoTemplate and ?f1.0 = ?rest] d1 d2 d3 d4
    by (simp add: prod_eq_iff)
  have b3': "mUninstall (manager ?bad) ''demo'' (fs installedWorld)
              = (Some (Opaque ''remove failed''), fs installedWorld)"
    using b3 by (simp add: demoTemplate_def)
  show ?thesis using a1 c1 b1 b3' c2 c3 by blast
qed

section \<open>Update and the refresh of linked templates\<close>

text \<open>
  Claim C6: \<open>Update\<close> never modifies the index; for an indexed template it does nothing
  but call the source manager's \<open>Update\<close> on the stored \<open>DirectoryName\<close>. The metadata
  of a template whose source type is \<open>Link\<close> is read again and written to the index
  (under the ID asked for, with source type \<open>Link\<close>) during \<open>Generate\<close>; for any other
  template \<open>Generate\<close> leaves the index alone too.
\<close>

theorem Update_keeps_index:
  "ix (snd (Update i templateID w)) = ix w
   \<and> (iExists (index i) templateID (ix w) = Inr True \<and>
      iFindTemplateByID (index i) templateID (ix w) = Inr t
      \<longrightarrow> Update i templateID w
            = (fst (mUpdate (manager i) (DirectoryName t) (fs w)),
               \<lparr>fs = snd (mUpdate (manager i) (DirectoryName t) (fs w)), ix = ix w\<rparr>))
   \<and> (iExists (index i) templateID (ix w) = Inr True \<and>
      iFindTemplateByID (index i) templateID (ix w) = Inr t \<and>
      SourceType t = SourceTypeLink \<and>
      modelReader i (mTemplateLocation (manager i) (DirectoryName t)) (fs w) = Inr t'
      \<longrightarrow> ix (snd (Generate i p templateID generatorID generationPath vals force w))
            = snd (iUpdate (index i) (t'\<lparr>ID := templateID, SourceType := SourceTypeLink\<rparr>) (ix w)))
   \<and> (iExists (index i) templateID (ix w) = Inr True \<and>
      iFindTemplateByID (index i) templateID (ix w) = Inr t \<and>
      SourceType t \<noteq> SourceTypeLink
      \<longrightarrow> ix (snd (Generate i p templateID generatorID generationPath vals force w)) = ix w)"
proof -
  have a: "ix (snd (Update i templateID w)) = ix w"
    by (simp add: Update_def split: sum.splits prod.splits option.splits)
  have b: "iExists (index i) templateID (ix w) = Inr True \<and>
      iFindTemplateByID (index i) templateID (ix w) = Inr t
      \<longrightarrow> Update i templateID w
            = (fst (mUpdate (manager i) (DirectoryName t) (fs w)),
               \<lparr>fs = snd (mUpdate (manager i) (DirectoryName t) (fs w)), ix = ix w\<rparr>)"
    by (auto simp: Update_def split: sum.splits prod.splits option.splits)
  have c: "iExists (index i) templateID (ix w) = Inr True \<and>
      iFindTemplateByID (index i) templateID (ix w) = Inr t \<and>
      SourceType t = SourceTypeLink \<and>
      modelReader i (mTemplateLocation (manager i) (DirectoryName t)) (fs w) = Inr t'
      \<longrightarrow> ix (snd (generateTemplateModel i templateID w))
            = snd (iUpdate (index i) (t'\<lparr>ID := templateID, SourceType := SourceTypeLink\<rparr>) (ix w))"
    by (auto simp: generateTemplateModel_def Let_def split: sum.splits prod.splits option.splits)
  have d: "iExists (index i) templateID (ix w) = Inr True \<and>
      iFindTemplateByID (index i) templateID (ix w) = Inr t \<and>
      SourceType t \<noteq> SourceTypeLink
      \<longrightarrow> ix (snd (generateTemplateModel i templateID w)) = ix w"
    by (auto simp: generateTemplateModel_def Let_def split: sum.splits prod.splits option.splits)
  show ?thesis using a b c d by (simp only: Generate_ix)
qed

text \<open>
  \<open>Update\<close> of the installed \<open>demo\<close> and of the linked \<open>mine\<close>, and \<open>Generate\<close> from
  both: only \<open>Generate\<close> from \<open>mine\<close> changes the index, to the model read from the
  link's metadata with the ID \<open>mine\<close> and the source type \<open>Link\<close> put back.
\<close>

theorem Update_keeps_index_witness:
  "Update (memIronman False demoTable []) ''demo'' installedWorld = (None, installedWorld)
   \<and> ix (snd (Update (memIronman False demoTable []) ''mine'' linkedWorld)) = ix linkedWorld
   \<and> SourceType linkedTemplate = SourceTypeLink
   \<and> ix (snd (Generate (memIronman False demoTable []) memPlatform ''mine'' ''app''
               ''/work/new'' [] False linkedWorld))
     = [(''mine'', demoTemplate\<lparr>ID := ''mine'', SourceType := SourceTypeLink\<rparr>)]
   \<and> SourceType demoTemplate \<noteq> SourceTypeLink
   \<and> ix (snd (Generate (memIronman False demoTable []) memPlatform ''demo'' ''app''
               ''/work/new'' [] False installedWorld)) = ix installedWorld"
proof -
  let ?i = "memIronman False demoTable []"
  have a1: "iExists (index ?i) ''demo'' (ix installedWorld) = Inr True"
    by (simp add: mem_defs)
  have a2: "iFindTemplateByID (index ?i) ''demo'' (ix installedWorld) = Inr demoTemplate"
    by (simp add: mem_defs)
  have a3: "mUpdate (manager ?i) (DirectoryName demoTemplate) (fs installedWorld)
              = (None, fs installedWorld)"
    by (simp add: mem_defs)
  have a4: "SourceType demoTemplate \<noteq> SourceTypeLink"
    by (simp add: demoTemplate_def)
  note demo = Update_keeps_index [where i = ?i and templateID = "''demo''"
      and w = installedWorld and t = demoTemplate and p = memPlatform
      and generatorID = "''app''" and generationPath = "''/work/new''" and vals = "[]"
      and force = False]
  have c1: "Update ?i ''demo'' installedWorld = (None, installedWorld)"
    using demo a1 a2 a3 by simp
  have c4: "ix (snd (Generate ?i memPlatform ''demo'' ''app'' ''/work/new'' [] False
              installedWorld)) = ix installedWorld"
    using demo a1 a2 a4 by blast
  have b1: "iExists (index ?i) ''mine'' (ix linkedWorld) = Inr True"
    by (simp add: mem_defs)
  have b2: "iFindTemplateByID (index ?i) ''mine'' (ix linkedWorld) = Inr linkedTemplate"
    by (simp add: mem_defs)
  have b3: "SourceType linkedTemplate = SourceTypeLink"
    by (simp add: linkedTemplate_def)
  have b4: "modelReader ?i (mTemplateLocation (manager ?i) (DirectoryName linkedTemplate))
              (fs linkedWorld) = Inr demoTemplate"
    by (simp add: mem_defs)
  have b5: "snd (iUpdate (index ?i) (demoTemplate\<lparr>ID := ''mine'', SourceType := SourceTypeLink\<rparr>)
              (ix linkedWorld))
            = [(''mine'', demoTemplate\<lparr>ID := ''mine'', SourceType := SourceTypeLink\<rparr>)]"
    by (simp add: mem_defs)
  note mine = Update_keeps_index [where i = ?i and templateID = "''mine''"
      and w = linkedWorld and t = linkedTemplate and t' = demoTemplate and p = memPlatform
      and generatorID = "''app''" and generationPath = "''/work/new''" and vals = "[]"
      and force = False]
  have c2: "ix (snd (Update ?i ''mine'' linkedWorld)) = ix linkedWorld"
    using mine by blast
  have c3: "ix (snd (Generate ?i memPlatform ''mine'' ''app'' ''/work/new'' [] False
              linkedWorld))
            = [(''mine'', demoTemplate\<lparr>ID := ''mine'', SourceType := SourceTypeLink\<rparr>)]"
    using mine b1 b2 b3 b4 b5 by simp
  show ?thesis using c1 c2 b3 c3 a4 c4 by blast
qed

section \<open>Link\<close>

text \<open>
  Claim C7: after every successful \<open>Link\<close> of a path under an ID, the template handed to
  the index for storing is the model read from the link with its ID replaced by the
  caller's ID and its source type by \<open>Link\<close>, whatever the metadata file declares.
\<close>

theorem Link_stores_caller_id:
  assumes "Link i templatePath templateID w = (None, w')"
  shows "\<exists>linkPath f1 t stored indexed.
           mLink (manager i) templatePath templateID (fs w) = (Inr linkPath, f1)
         \<and> modelReader i linkPath f1 = Inr t
         \<and> stored = t\<lparr>ID := templateID, SourceType := SourceTypeLink\<rparr>
         \<and> iIndex (index i) stored (ix w) = (Inr indexed, ix w')
         \<and> ID stored = templateID \<and> SourceType stored = SourceTypeLink"
  using assms
  by (auto simp: Link_def split: prod.splits sum.splits option.splits)

text \<open>
  Linking \<open>/work\<close> under the ID \<open>mine\<close>: the metadata declares the ID \<open>demo\<close> and the
  source type URL, the index then finds under \<open>mine\<close> a template with the ID \<open>mine\<close>
  and the source type \<open>Link\<close>.
\<close>

theorem Link_stores_caller_id_witness:
  "Link (memIronman False demoTable []) ''/work'' ''mine'' emptyWorld
     = (None, \<lparr>fs = ''/home/templates/mine'' # fs emptyWorld,
               ix = [(''mine'', demoTemplate\<lparr>ID := ''mine'', SourceType := SourceTypeLink\<rparr>)]\<rparr>)
   \<and> ID demoTemplate = ''demo'' \<and> SourceType demoTemplate = SourceTypeURL
   \<and> (\<exists>linkPath f1 t stored indexed.
           mLink (manager (memIronman False demoTable [])) ''/work'' ''mine'' (fs emptyWorld)
             = (Inr linkPath, f1)
         \<and> modelReader (memIronman False demoTable []) linkPath f1 = Inr t
         \<and> stored = t\<lparr>ID := ''mine'', SourceType := SourceTypeLink\<rparr>
         \<and> iIndex (index (memIronman False demoTable [])) stored (ix emptyWorld)
             = (Inr indexed,
                [(''mine'', demoTemplate\<lparr>ID := ''mine'', SourceType := SourceTypeLink\<rparr>)])
         \<and> ID stored = ''mine'' \<and> SourceType stored = SourceTypeLink)
   \<and> iFindTemplateByID memIndex ''mine''
        [(''mine'', demoTemplate\<lparr>ID := ''mine'', SourceType := SourceTypeLink\<rparr>)]
     = Inr (demoTemplate\<lparr>ID := ''mine'', SourceType := SourceTypeLink\<rparr>)"
proof -
  let ?i = "memIronman False demoTable []"
  let ?w = "\<lparr>fs = ''/home/templates/mine'' # fs emptyWorld,
              ix = [(''mine'', demoTemplate\<lparr>ID := ''mine'', SourceType := SourceTypeLink\<rparr>)]\<rparr>"
  have h: "Link ?i ''/work'' ''mine'' emptyWorld = (None, ?w)"
    by (simp add: Link_def mem_defs)
  have m: "ID demoTemplate = ''demo'' \<and> SourceType demoTemplate = SourceTypeURL"
    by (simp add: demoTemplate_def)
  have l: "iFindTemplateByID memIndex ''mine''
             [(''mine'', demoTemplate\<lparr>ID := ''mine'', SourceType := SourceTypeLink\<rparr>)]
           = Inr (demoTemplate\<lparr>ID := ''mine'', SourceType := SourceTypeLink\<rparr>)"
    by (simp add: memIndex_def)
  show ?thesis using h m l Link_stores_caller_id [OF h] by simp
qed

section \<open>The base manager\<close>

text \<open>
  Claim C8: no operation a source manager exposes aborts the process unconditionally;
  \<open>Install\<close>, \<open>Update\<close> and \<open>Find\<close> are implemented or not callable.

  The run below calls \<open>Find\<close> on a base manager. Its doc comment says
  \<open>Find finds a template in the manager\<close>; the call panics with \<open>not implemented\<close>
  and returns nothing.
\<close>

theorem BaseManager_Find_panics:
  "BaseManager_Find (NewBaseManager memPlatform ''/home'') ''demo'' = Panic ''not implemented''"
  by (simp add: BaseManager_Find_def)

text \<open>
  Claim C9: \<open>Uninstall\<close>, \<open>IsInstalled\<close>, \<open>Link\<close> and \<open>Unlink\<close> of the base manager
  return the error \<open>a templateID cannot be empty\<close> on the empty template ID, whatever
  the platform answers, and leave the filesystem as it is.
\<close>

theorem empty_templateID_rejected:
  "BaseManager_Uninstall p b [] f = (Some (ErrNew ''a templateID cannot be empty''), f)
   \<and> BaseManager_IsInstalled p b [] f = (False, Some (ErrNew ''a templateID cannot be empty''))
   \<and> BaseManager_Link p b templatePath [] f = (Some (ErrNew ''a templateID cannot be empty''), f)
   \<and> BaseManager_Unlink p b [] f = (Some (ErrNew ''a templateID cannot be empty''), f)"
  by (simp add: BaseManager_Uninstall_def BaseManager_IsInstalled_def BaseManager_Link_def
        BaseManager_Unlink_def validateTemplateID_def)

section \<open>Generate: the checks on the generation path\<close>

text \<open>
  Claim C4: for a generator of type \<open>File\<close>, \<open>Generate\<close> fails (\<open>directory ... does not
  exists\<close>) when the parent directory of the target does not exist; the output file path
  it checks is the parent joined with \<open>FileGenerationRelativePath\<close> and the base name of
  the target, and \<open>Generate\<close> fails (\<open>file already exists ...\<close>) when that file exists
  and \<open>force\<close> is false. Both failures come before any write: the filesystem is the one
  \<open>Generate\<close> started with.
\<close>

theorem Generate_File_checks:
  assumes "generateTemplateModel i templateID w = (Inr t, w1)"
      and "Generator t generatorID = Some g"
      and "TType g = GeneratorTypeFile"
      and "filepathAbs p generationPath = Inr a"
  shows "fs w1 = fs w
    \<and> (IsNotExist (osStat p (filepathDir p a) (fs w))
         \<longrightarrow> Generate i p templateID generatorID generationPath vals force w
             = (Some (ErrNew (''directory '' @ filepathDir p generationPath @ '' does not exists'')), w1))
    \<and> (\<not> IsNotExist (osStat p (filepathDir p a) (fs w)) \<and> \<not> force \<and>
        osStat p (filepathJoin p [filepathDir p a, FileGenerationRelativePath g, filepathBase p a])
          (fs w) = None
         \<longrightarrow> Generate i p templateID generatorID generationPath vals force w
             = (Some (ErrNew (''file already exists ''
                  @ filepathJoin p [filepathDir p a, FileGenerationRelativePath g, filepathBase p a]
                  @ '' '')), w1))"
proof -
  have f: "fs w1 = fs w"
    using generateTemplateModel_fs [of i templateID w] assms(1) by simp
  show ?thesis
    using assms(2-)
    by (simp add: Generate_def checkGenerationPath_def Let_def assms(1) f [symmetric])
qed

text \<open>
  The file generator \<open>controller\<close> of \<open>demo\<close> (relative path \<open>src\<close>), without
  \<open>force\<close>: into \<open>/nowhere/main.go\<close>, whose parent is missing, and into
  \<open>/work/main.go\<close>, where \<open>/work/src/main.go\<close> exists.
\<close>

theorem Generate_File_checks_witness:
  "generateTemplateModel (memIronman False demoTable []) ''demo'' installedWorld
     = (Inr demoTemplate, installedWorld)
   \<and> Generator demoTemplate ''controller'' = Some fileGen
   \<and> TType fileGen = GeneratorTypeFile
   \<and> IsNotExist (osStat memPlatform ''/nowhere'' (fs installedWorld))
   \<and> Generate (memIronman False demoTable []) memPlatform ''demo'' ''controller''
        ''/nowhere/main.go'' [] False installedWorld
     = (Some (ErrNew ''directory /nowhere does not exists''), installedWorld)
   \<and> osStat memPlatform ''/work/src/main.go'' (fs installedWorld) = None
   \<and> Generate (memIronman False demoTable []) memPlatform ''demo'' ''controller''
        ''/work/main.go'' [] False installedWorld
     = (Some (ErrNew ''file already exists /work/src/main.go ''), installedWorld)"
proof -
  let ?i = "memIronman False demoTable []"
  have h1: "generateTemplateModel ?i ''demo'' installedWorld = (Inr demoTemplate, installedWorld)"
    by (simp add: generateTemplateModel_def mem_defs)
  have h2: "Generator demoTemplate ''controller'' = Some fileGen"
    by (simp add: Generator_def demoTemplate_def fileGen_def dirGen_def)
  have h3: "TType fileGen = GeneratorTypeFile"
    by (simp add: fileGen_def)
  have h4: "filepathAbs memPlatform ''/nowhere/main.go'' = Inr ''/nowhere/main.go''"
    by (simp add: memPlatform_def)
  have h5: "filepathAbs memPlatform ''/work/main.go'' = Inr ''/work/main.go''"
    by (simp add: memPlatform_def)
  have d1: "filepathDir memPlatform ''/nowhere/main.go'' = ''/nowhere''"
    by (simp add: memPlatform_def memDir_def)
  have d2: "filepathDir memPlatform ''/work/main.go'' = ''/work''"
    by (simp add: memPlatform_def memDir_def)
  have d3: "filepathJoin memPlatform [''/work'', FileGenerationRelativePath fileGen,
              filepathBase memPlatform ''/work/main.go''] = ''/work/src/main.go''"
    by (simp add: memPlatform_def memBase_def memJoin_def fileGen_def)
  have s1: "IsNotExist (osStat memPlatform ''/nowhere'' (fs installedWorld))"
    by (simp add: memPlatform_def installedWorld_def)
  have s2: "\<not> IsNotExist (osStat memPlatform ''/work'' (fs installedWorld))"
    by (simp add: memPlatform_def installedWorld_def)
  have s3: "osStat memPlatform ''/work/src/main.go'' (fs installedWorld) = None"
    by (simp add: memPlatform_def installedWorld_def)
  have c1: "Generate ?i memPlatform ''demo'' ''controller'' ''/nowhere/main.go'' [] False
              installedWorld
            = (Some (ErrNew ''directory /nowhere does not exists''), installedWorld)"
    using Generate_File_checks [where vals = "[]" and force = False, OF h1 h2 h3 h4] s1 by (simp add: d1)
  have c2: "Generate ?i memPlatform ''demo'' ''controller'' ''/work/main.go'' [] False
              installedWorld
            = (Some (ErrNew ''file already exists /work/src/main.go ''), installedWorld)"
    using Generate_File_checks [where vals = "[]" and force = False, OF h1 h2 h3 h5] s2 s3 by (simp add: d2 d3)
  show ?thesis using h1 h2 h3 s1 c1 s3 c2 by blast
qed

text \<open>
  Claim C5, as stated: for a generator of type \<open>Directory\<close>, when the target directory
  already exists, generation succeeds if and only if \<open>force\<close> is true or the directory
  is empty, and otherwise fails with the conflict error.

  The runs below are without \<open>force\<close> into two existing directories that the caller
  cannot open. \<open>/work/locked\<close> is empty, and generation fails; \<open>/work/sealed\<close> holds
  a file, and the error is not the conflict error \<open>Generation path is not empty\<close>
  but the error of \<open>os.Open\<close>, wrapped. Nothing is written in either run.
\<close>

theorem Generate_unlistable_directory:
  "osMkdir guardedPlatform ''/work/locked'' (fs guardedWorld)
     = Inl (OSError ''mkdir'' ''/work/locked'' EEXIST)
   \<and> memChildren ''/work/locked'' (fs guardedWorld) = []
   \<and> Generate (memIronman False demoTable []) guardedPlatform ''demo'' ''app''
        ''/work/locked'' [] False guardedWorld
     = (Some (ErrWrap (OSError ''open'' ''/work/locked'' EACCES)
          ''failed to validate if generation path is empty open /work/locked: permission denied''),
        guardedWorld)
   \<and> osMkdir guardedPlatform ''/work/sealed'' (fs guardedWorld)
     = Inl (OSError ''mkdir'' ''/work/sealed'' EEXIST)
   \<and> memChildren ''/work/sealed'' (fs guardedWorld) = [''notes'']
   \<and> Generate (memIronman False demoTable []) guardedPlatform ''demo'' ''app''
        ''/work/sealed'' [] False guardedWorld
     = (Some (ErrWrap (OSError ''open'' ''/work/sealed'' EACCES)
          ''failed to validate if generation path is empty open /work/sealed: permission denied''),
        guardedWorld)
   \<and> ErrWrap (OSError ''open'' ''/work/sealed'' EACCES)
          ''failed to validate if generation path is empty open /work/sealed: permission denied''
     \<noteq> ErrNew ''Generation path is not empty /work/sealed''"
proof -
  let ?i = "memIronman False demoTable []"
  have t: "generateTemplateModel ?i ''demo'' guardedWorld = (Inr demoTemplate, guardedWorld)"
    by (simp add: generateTemplateModel_def mem_defs)
  have g: "Generator demoTemplate ''app'' = Some dirGen"
    by (simp add: Generator_def demoTemplate_def fileGen_def dirGen_def)
  have m1: "osMkdir guardedPlatform ''/work/locked'' (fs guardedWorld)
              = Inl (OSError ''mkdir'' ''/work/locked'' EEXIST)"
    by (simp add: guardedPlatform_def memPlatform_def guardedWorld_def)
  have m2: "osMkdir guardedPlatform ''/work/sealed'' (fs guardedWorld)
              = Inl (OSError ''mkdir'' ''/work/sealed'' EEXIST)"
    by (simp add: guardedPlatform_def memPlatform_def guardedWorld_def)
  have k1: "memChildren ''/work/locked'' (fs guardedWorld) = []"
    by (simp add: memChildren_def memDir_def memBase_def guardedWorld_def)
  have k2: "memChildren ''/work/sealed'' (fs guardedWorld) = [''notes'']"
    by (simp add: memChildren_def memDir_def memBase_def guardedWorld_def)
  have o1: "isDirEmpty guardedPlatform ''/work/locked'' (fs guardedWorld)
              = (False, Some (OSError ''open'' ''/work/locked'' EACCES))"
    by (simp add: isDirEmpty_def guardedPlatform_def)
  have o2: "isDirEmpty guardedPlatform ''/work/sealed'' (fs guardedWorld)
              = (False, Some (OSError ''open'' ''/work/sealed'' EACCES))"
    by (simp add: isDirEmpty_def guardedPlatform_def)
  have a: "filepathAbs guardedPlatform q = Inr q" for q
    by (simp add: guardedPlatform_def memPlatform_def)
  have c1: "Generate ?i guardedPlatform ''demo'' ''app'' ''/work/locked'' [] False guardedWorld
     = (Some (ErrWrap (OSError ''open'' ''/work/locked'' EACCES)
          ''failed to validate if generation path is empty open /work/locked: permission denied''),
        guardedWorld)"
    by (simp add: Generate_def checkGenerationPath_def t g a m1 o1 dirGen_def)
  have c2: "Generate ?i guardedPlatform ''demo'' ''app'' ''/work/sealed'' [] False guardedWorld
     = (Some (ErrWrap (OSError ''open'' ''/work/sealed'' EACCES)
          ''failed to validate if generation path is empty open /work/sealed: permission denied''),
        guardedWorld)"
    by (simp add: Generate_def checkGenerationPath_def t g a m2 o2 dirGen_def)
  show ?thesis using m1 k1 c1 m2 k2 c2 by simp
qed

text \<open>
  Claim C5, amended: for a generator of type \<open>Directory\<close>, \<open>Generate\<close> creates the
  target directory and goes on to the rendering walk. When the target already exists
  (\<open>os.Mkdir\<close> reports it), the walk runs if and only if \<open>force\<close> is true or the
  directory opens and reading one name from it reports the end of the directory. Otherwise
  \<open>Generate\<close> fails with the filesystem as it found it: with the conflict error
  \<open>Generation path is not empty\<close> when a name was read, and with the error of
  \<open>os.Open\<close> or of the read, wrapped with
  \<open>failed to validate if generation path is empty\<close>, when the directory could not
  be opened or read.
\<close>

theorem Generate_Directory_conflict:
  assumes "generateTemplateModel i templateID w = (Inr t, w1)"
      and "Generator t generatorID = Some g"
      and "TType g = GeneratorTypeDirectory"
      and "filepathAbs p generationPath = Inr a"
  shows "fs w1 = fs w
    \<and> (osMkdir p a (fs w) = Inr f1
         \<longrightarrow> Generate i p templateID generatorID generationPath vals force w
             = renderGenerator i p t g a vals (w1\<lparr>fs := f1\<rparr>))
    \<and> (osMkdir p a (fs w) = Inl e \<and> IsExist (Some e)
         \<longrightarrow> (if force \<or> (osOpen p a (fs w) = None \<and>
                          snd (osReaddirnames p a 1 (fs w)) = Some EOF)
              then Generate i p templateID generatorID generationPath vals force w
                     = renderGenerator i p t g a vals w1
              else \<exists>err. Generate i p templateID generatorID generationPath vals force w
                     = (Some err, w1)))
    \<and> (osMkdir p a (fs w) = Inl e \<and> IsExist (Some e) \<and> \<not> force \<and>
        osOpen p a (fs w) = None \<and> snd (osReaddirnames p a 1 (fs w)) = None
         \<longrightarrow> Generate i p templateID generatorID generationPath vals force w
             = (Some (ErrNew (''Generation path is not empty '' @ a)), w1))
    \<and> (osMkdir p a (fs w) = Inl e \<and> IsExist (Some e) \<and> \<not> force \<and>
        osOpen p a (fs w) = Some openErr
         \<longrightarrow> Generate i p templateID generatorID generationPath vals force w
             = (Some (ErrWrap openErr
                  (''failed to validate if generation path is empty '' @ Error openErr)), w1))
    \<and> (osMkdir p a (fs w) = Inl e \<and> IsExist (Some e) \<and> \<not> force \<and>
        osOpen p a (fs w) = None \<and> snd (osReaddirnames p a 1 (fs w)) = Some readErr \<and>
        readErr \<noteq> EOF
         \<longrightarrow> Generate i p templateID generatorID generationPath vals force w
             = (Some (ErrWrap readErr
                  (''failed to validate if generation path is empty '' @ Error readErr)), w1))"
proof -
  have f: "fs w = fs w1"
    using generateTemplateModel_fs [of i templateID w] assms(1) by simp
  note defs = Generate_def checkGenerationPath_def isDirEmpty_def assms(1) f
  have created: "osMkdir p a (fs w) = Inr f1
      \<longrightarrow> Generate i p templateID generatorID generationPath vals force w
            = renderGenerator i p t g a vals (w1\<lparr>fs := f1\<rparr>)"
    using assms(2-) by (simp add: defs)
  have walk: "osMkdir p a (fs w) = Inl e \<and> IsExist (Some e)
      \<longrightarrow> (if force \<or> (osOpen p a (fs w) = None \<and>
                       snd (osReaddirnames p a 1 (fs w)) = Some EOF)
           then Generate i p templateID generatorID generationPath vals force w
                  = renderGenerator i p t g a vals w1
           else \<exists>err. Generate i p templateID generatorID generationPath vals force w
                  = (Some err, w1))"
    using assms(2-) IsExist_not_IsPermission [of "Some e"]
    by (cases "osReaddirnames p a 1 (fs w1)")
       (auto simp: defs split: option.splits)
  have conflict: "osMkdir p a (fs w) = Inl e \<and> IsExist (Some e) \<and> \<not> force \<and>
        osOpen p a (fs w) = None \<and> snd (osReaddirnames p a 1 (fs w)) = None
      \<longrightarrow> Generate i p templateID generatorID generationPath vals force w
            = (Some (ErrNew (''Generation path is not empty '' @ a)), w1)"
    using assms(2-) IsExist_not_IsPermission [of "Some e"]
    by (cases "osReaddirnames p a 1 (fs w1)") (auto simp: defs)
  have openFails: "osMkdir p a (fs w) = Inl e \<and> IsExist (Some e) \<and> \<not> force \<and>
        osOpen p a (fs w) = Some openErr
      \<longrightarrow> Generate i p templateID generatorID generationPath vals force w
            = (Some (ErrWrap openErr
                 (''failed to validate if generation path is empty '' @ Error openErr)), w1)"
    using assms(2-) IsExist_not_IsPermission [of "Some e"]
    by (auto simp: defs)
  have readFails: "osMkdir p a (fs w) = Inl e \<and> IsExist (Some e) \<and> \<not> force \<and>
        osOpen p a (fs w) = None \<and> snd (osReaddirnames p a 1 (fs w)) = Some readErr \<and>
        readErr \<noteq> EOF
      \<longrightarrow> Generate i p templateID generatorID generationPath vals force w
            = (Some (ErrWrap readErr
                 (''failed to validate if generation path is empty '' @ Error readErr)), w1)"
    using assms(2-) IsExist_not_IsPermission [of "Some e"]
    by (cases "osReaddirnames p a 1 (fs w1)") (auto simp: defs)
  from f have "fs w1 = fs w" by simp
  with created walk conflict openFails readFails show ?thesis
    by (intro conjI)
qed



text \<open>
  The directory generator \<open>app\<close> of \<open>demo\<close>: into the new \<open>/work/new\<close>; with
  \<open>force\<close> into \<open>/work/full\<close>, which holds a file; without \<open>force\<close> into the
  empty \<open>/work/blank\<close>, into \<open>/work/full\<close>, into \<open>/work/locked\<close>, which cannot be
  opened, and onto the file \<open>/work/src/main.go\<close>, from which no names can be read.
\<close>

theorem Generate_Directory_conflict_witness:
  "generateTemplateModel (memIronman False demoTable []) ''demo'' guardedWorld
     = (Inr demoTemplate, guardedWorld)
   \<and> Generator demoTemplate ''app'' = Some dirGen
   \<and> TType dirGen = GeneratorTypeDirectory
   \<and> osMkdir guardedPlatform ''/work/new'' (fs guardedWorld)
     = Inr (''/work/new'' # fs guardedWorld)
   \<and> Generate (memIronman False demoTable []) guardedPlatform ''demo'' ''app''
        ''/work/new'' [] False guardedWorld
     = (None, guardedWorld\<lparr>fs := ''/work/new/app'' # ''/work/new'' # fs guardedWorld\<rparr>)
   \<and> osMkdir guardedPlatform ''/work/full'' (fs guardedWorld)
     = Inl (OSError ''mkdir'' ''/work/full'' EEXIST)
   \<and> Generate (memIronman False demoTable []) guardedPlatform ''demo'' ''app''
        ''/work/full'' [] True guardedWorld
     = (None, guardedWorld\<lparr>fs := ''/work/full/app'' # fs guardedWorld\<rparr>)
   \<and> osOpen guardedPlatform ''/work/full'' (fs guardedWorld) = None
   \<and> snd (osReaddirnames guardedPlatform ''/work/full'' 1 (fs guardedWorld)) = None
   \<and> Generate (memIronman False demoTable []) guardedPlatform ''demo'' ''app''
        ''/work/full'' [] False guardedWorld
     = (Some (ErrNew ''Generation path is not empty /work/full''), guardedWorld)
   \<and> osMkdir guardedPlatform ''/work/blank'' (fs guardedWorld)
     = Inl (OSError ''mkdir'' ''/work/blank'' EEXIST)
   \<and> osOpen guardedPlatform ''/work/blank'' (fs guardedWorld) = None
   \<and> snd (osReaddirnames guardedPlatform ''/work/blank'' 1 (fs guardedWorld)) = Some EOF
   \<and> Generate (memIronman False demoTable []) guardedPlatform ''demo'' ''app''
        ''/work/blank'' [] False guardedWorld
     = (None, guardedWorld\<lparr>fs := ''/work/blank/app'' # fs guardedWorld\<rparr>)
   \<and> osMkdir guardedPlatform ''/work/locked'' (fs guardedWorld)
     = Inl (OSError ''mkdir'' ''/work/locked'' EEXIST)
   \<and> osOpen guardedPlatform ''/work/locked'' (fs guardedWorld)
     = Some (OSError ''open'' ''/work/locked'' EACCES)
   \<and> Generate (memIronman False demoTable []) guardedPlatform ''demo'' ''app''
        ''/work/locked'' [] False guardedWorld
     = (Some (ErrWrap (OSError ''open'' ''/work/locked'' EACCES)
          ''failed to validate if generation path is empty open /work/locked: permission denied''),
        guardedWorld)
   \<and> osMkdir guardedPlatform ''/work/src/main.go'' (fs guardedWorld)
     = Inl (OSError ''mkdir'' ''/work/src/main.go'' EEXIST)
   \<and> osOpen guardedPlatform ''/work/src/main.go'' (fs guardedWorld) = None
   \<and> snd (osReaddirnames guardedPlatform ''/work/src/main.go'' 1 (fs guardedWorld))
     = Some (OSError ''readdirent'' ''/work/src/main.go'' ENOTDIR)
   \<and> Generate (memIronman False demoTable []) guardedPlatform ''demo'' ''app''
        ''/work/src/main.go'' [] False guardedWorld
     = (Some (ErrWrap (OSError ''readdirent'' ''/work/src/main.go'' ENOTDIR)
          ''failed to validate if generation path is empty readdirent /work/src/main.go: not a directory''),
        guardedWorld)"
proof -
  let ?i = "memIronman False demoTable []"
  let ?P = guardedPlatform
  note pf = guardedPlatform_def memPlatform_def memDir_def memBase_def guardedWorld_def
  have h1: "generateTemplateModel ?i ''demo'' guardedWorld = (Inr demoTemplate, guardedWorld)"
    by (simp add: generateTemplateModel_def mem_defs)
  have h2: "Generator demoTemplate ''app'' = Some dirGen"
    by (simp add: Generator_def demoTemplate_def fileGen_def dirGen_def)
  have h3: "TType dirGen = GeneratorTypeDirectory"
    by (simp add: dirGen_def)
  have h4: "filepathAbs ?P q = Inr q" for q
    by (simp add: guardedPlatform_def memPlatform_def)
  have r: "renderGenerator ?i ?P demoTemplate dirGen q [] (guardedWorld\<lparr>fs := f\<rparr>)
             = (None, guardedWorld\<lparr>fs := (q @ ''/app'') # f\<rparr>)" if "q \<noteq> []" for q f
    using that
    by (simp add: renderGenerator_def guardedPlatform_def memPlatform_def memJoin_def dirGen_def)
  have r0: "renderGenerator ?i ?P demoTemplate dirGen q [] guardedWorld
             = (None, guardedWorld\<lparr>fs := (q @ ''/app'') # fs guardedWorld\<rparr>)"
    if "q \<noteq> []" for q
    using r [OF that, of "fs guardedWorld"] by simp
  have x: "IsExist (Some (OSError ''mkdir'' q EEXIST))" for q
    by simp
  have m1: "osMkdir ?P ''/work/new'' (fs guardedWorld) = Inr (''/work/new'' # fs guardedWorld)"
    by (simp add: pf)
  have m2: "osMkdir ?P ''/work/full'' (fs guardedWorld)
              = Inl (OSError ''mkdir'' ''/work/full'' EEXIST)"
    by (simp add: pf)
  have m3: "osMkdir ?P ''/work/blank'' (fs guardedWorld)
              = Inl (OSError ''mkdir'' ''/work/blank'' EEXIST)"
    by (simp add: pf)
  have m4: "osMkdir ?P ''/work/locked'' (fs guardedWorld)
              = Inl (OSError ''mkdir'' ''/work/locked'' EEXIST)"
    by (simp add: pf)
  have m5: "osMkdir ?P ''/work/src/main.go'' (fs guardedWorld)
              = Inl (OSError ''mkdir'' ''/work/src/main.go'' EEXIST)"
    by (simp add: pf)
  have o2: "osOpen ?P ''/work/full'' (fs guardedWorld) = None"
    by (simp add: pf)
  have o3: "osOpen ?P ''/work/blank'' (fs guardedWorld) = None"
    by (simp add: pf)
  have o4: "osOpen ?P ''/work/locked'' (fs guardedWorld)
              = Some (OSError ''open'' ''/work/locked'' EACCES)"
    by (simp add: pf)
  have o5: "osOpen ?P ''/work/src/main.go'' (fs guardedWorld) = None"
    by (simp add: pf)
  have n2: "snd (osReaddirnames ?P ''/work/full'' 1 (fs guardedWorld)) = None"
    by (simp add: pf)
  have n3: "snd (osReaddirnames ?P ''/work/blank'' 1 (fs guardedWorld)) = Some EOF"
    by (simp add: pf)
  have n5: "snd (osReaddirnames ?P ''/work/src/main.go'' 1 (fs guardedWorld))
              = Some (OSError ''readdirent'' ''/work/src/main.go'' ENOTDIR)"
    by (simp add: pf)
  have c1: "Generate ?i ?P ''demo'' ''app'' ''/work/new'' [] False guardedWorld
              = (None, guardedWorld\<lparr>fs := ''/work/new/app'' # ''/work/new'' # fs guardedWorld\<rparr>)"
    using Generate_Directory_conflict [where vals = "[]" and force = False
        and ?f1.0 = "''/work/new'' # fs guardedWorld", OF h1 h2 h3 h4 [of "''/work/new''"]] m1
    by (simp add: r)
  have c2: "Generate ?i ?P ''demo'' ''app'' ''/work/full'' [] True guardedWorld
              = (None, guardedWorld\<lparr>fs := ''/work/full/app'' # fs guardedWorld\<rparr>)"
    using Generate_Directory_conflict [where vals = "[]" and force = True
        and e = "OSError ''mkdir'' ''/work/full'' EEXIST", OF h1 h2 h3 h4 [of "''/work/full''"]]
      m2
    by (simp add: r0)
  have c3: "Generate ?i ?P ''demo'' ''app'' ''/work/blank'' [] False guardedWorld
              = (None, guardedWorld\<lparr>fs := ''/work/blank/app'' # fs guardedWorld\<rparr>)"
    using Generate_Directory_conflict [where vals = "[]" and force = False
        and e = "OSError ''mkdir'' ''/work/blank'' EEXIST", OF h1 h2 h3 h4 [of "''/work/blank''"]]
      m3 o3 n3
    by (simp add: r0)
  have c4: "Generate ?i ?P ''demo'' ''app'' ''/work/full'' [] False guardedWorld
              = (Some (ErrNew ''Generation path is not empty /work/full''), guardedWorld)"
    using Generate_Directory_conflict [where vals = "[]" and force = False
        and e = "OSError ''mkdir'' ''/work/full'' EEXIST", OF h1 h2 h3 h4 [of "''/work/full''"]]
      m2 o2 n2
    by simp
  have c5: "Generate ?i ?P ''demo'' ''app'' ''/work/locked'' [] False guardedWorld
     = (Some (ErrWrap (OSError ''open'' ''/work/locked'' EACCES)
          ''failed to validate if generation path is empty open /work/locked: permission denied''),
        guardedWorld)"
    using Generate_Directory_conflict [where vals = "[]" and force = False
        and e = "OSError ''mkdir'' ''/work/locked'' EEXIST"
        and openErr = "OSError ''open'' ''/work/locked'' EACCES",
        OF h1 h2 h3 h4 [of "''/work/locked''"]]
      m4 o4
    by simp
  have c6: "Generate ?i ?P ''demo'' ''app'' ''/work/src/main.go'' [] False guardedWorld
     = (Some (ErrWrap (OSError ''readdirent'' ''/work/src/main.go'' ENOTDIR)
          ''failed to validate if generation path is empty readdirent /work/src/main.go: not a directory''),
        guardedWorld)"
    using Generate_Directory_conflict [where vals = "[]" and force = False
        and e = "OSError ''mkdir'' ''/work/src/main.go'' EEXIST"
        and readErr = "OSError ''readdirent'' ''/work/src/main.go'' ENOTDIR",
        OF h1 h2 h3 h4 [of "''/work/src/main.go''"]]
      m5 o5 n5
    by simp
  show ?thesis
    using h1 h2 h3 m1 c1 m2 c2 o2 n2 c4 m3 o3 n3 c3 m4 o4 c5 m5 o5 n5 c6 by blast
qed

text \<open>
  Claim C10: for a generator of type \<open>Directory\<close>, when creating the target directory
  fails with an error that is neither a permission error nor an already-exists error,
  \<open>Generate\<close> does not return that error: it goes on to the rendering walk, on the
  filesystem as it was, as it does after a successful creation.
\<close>

theorem Generate_mkdir_failure_ignored:
  assumes "generateTemplateModel i templateID w = (Inr t, w1)"
      and "Generator t generatorID = Some g"
      and "TType g = GeneratorTypeDirectory"
      and "filepathAbs p generationPath = Inr a"
      and "osMkdir p a (fs w) = Inl e"
      and "\<not> IsPermission (Some e)"
      and "\<not> IsExist (Some e)"
  shows "Generate i p templateID generatorID generationPath vals force w
           = renderGenerator i p t g a vals w1"
proof -
  have f: "fs w1 = fs w"
    using generateTemplateModel_fs [of i templateID w] assms(1) by simp
  show ?thesis
    using assms(2-)
    by (simp add: Generate_def checkGenerationPath_def assms(1) f [symmetric])
qed

text \<open>
  The directory generator \<open>app\<close> of \<open>demo\<close> into \<open>/nowhere/new\<close>: the parent is
  missing, \<open>os.Mkdir\<close> fails with \<open>ENOENT\<close>, and the engine runs all the same.
\<close>

theorem Generate_mkdir_failure_ignored_witness:
  "generateTemplateModel (memIronman False demoTable []) ''demo'' installedWorld
     = (Inr demoTemplate, installedWorld)
   \<and> Generator demoTemplate ''app'' = Some dirGen
   \<and> TType dirGen = GeneratorTypeDirectory
   \<and> filepathAbs memPlatform ''/nowhere/new'' = Inr ''/nowhere/new''
   \<and> osMkdir memPlatform ''/nowhere/new'' (fs installedWorld)
     = Inl (OSError ''mkdir'' ''/nowhere/new'' ENOENT)
   \<and> \<not> IsPermission (Some (OSError ''mkdir'' ''/nowhere/new'' ENOENT))
   \<and> \<not> IsExist (Some (OSError ''mkdir'' ''/nowhere/new'' ENOENT))
   \<and> Generate (memIronman False demoTable []) memPlatform ''demo'' ''app''
        ''/nowhere/new'' [] False installedWorld
     = renderGenerator (memIronman False demoTable []) memPlatform demoTemplate dirGen
         ''/nowhere/new'' [] installedWorld
   \<and> renderGenerator (memIronman False demoTable []) memPlatform demoTemplate dirGen
         ''/nowhere/new'' [] installedWorld
     = (None, installedWorld\<lparr>fs := ''/nowhere/new/app'' # fs installedWorld\<rparr>)"
proof -
  let ?i = "memIronman False demoTable []"
  have h1: "generateTemplateModel ?i ''demo'' installedWorld = (Inr demoTemplate, installedWorld)"
    by (simp add: generateTemplateModel_def mem_defs)
  have h2: "Generator demoTemplate ''app'' = Some dirGen"
    by (simp add: Generator_def demoTemplate_def fileGen_def dirGen_def)
  have h3: "TType dirGen = GeneratorTypeDirectory"
    by (simp add: dirGen_def)
  have h4: "filepathAbs memPlatform ''/nowhere/new'' = Inr ''/nowhere/new''"
    by (simp add: memPlatform_def)
  have h5: "osMkdir memPlatform ''/nowhere/new'' (fs installedWorld)
              = Inl (OSError ''mkdir'' ''/nowhere/new'' ENOENT)"
    by (simp add: memPlatform_def memDir_def installedWorld_def)
  have h6: "\<not> IsPermission (Some (OSError ''mkdir'' ''/nowhere/new'' ENOENT))"
    by simp
  have h7: "\<not> IsExist (Some (OSError ''mkdir'' ''/nowhere/new'' ENOENT))"
    by simp
  have r: "renderGenerator ?i memPlatform demoTemplate dirGen ''/nowhere/new'' [] installedWorld
             = (None, installedWorld\<lparr>fs := ''/nowhere/new/app'' # fs installedWorld\<rparr>)"
    by (simp add: renderGenerator_def memPlatform_def memJoin_def dirGen_def)
  show ?thesis
    using h1 h2 h3 h4 h5 h6 h7 r
      Generate_mkdir_failure_ignored [where vals = "[]" and force = False,
        OF h1 h2 h3 h4 h5 h6 h7]
    by blast
qed

end
